theory Spec2Isabelle
  imports Complex_Main "HOL-Library.AList"
begin

section \<open>JSON values\<close>

text \<open>
  The values that \<^verbatim>\<open>JSON.parse\<close> produces. A number carries the exact value of
  its decimal literal (rounding to binary64 is not modelled). An object is the list of
  its properties in insertion order, with distinct keys; the code modelled here only
  looks properties up by name.
\<close>

datatype json =
    JNull
  | JBool bool
  | JNum rat
  | JStr string
  | JArr "json list"
  | JObj "(string \<times> json) list"

text \<open>What the modelled functions throw. \<open>Error m\<close> is \<^verbatim>\<open>new Error(m)\<close>.\<close>

datatype exn = Error string | TypeError | SyntaxError | ZodError

section \<open>The schema validator (zod)\<close>

text \<open>
  zod is the validation library the service imports; its behaviour is modelled as the
  library documents it. The fragment that \<^verbatim>\<open>aiResponseSchema\<close> is built from:
  \<^verbatim>\<open>z.string()\<close>, \<^verbatim>\<open>z.number()\<close> with its \<^verbatim>\<open>min\<close> and \<^verbatim>\<open>max\<close> checks
  (both inclusive), \<^verbatim>\<open>z.array(s)\<close> and \<^verbatim>\<open>z.object(shape)\<close>. An object schema
  made by \<^verbatim>\<open>z.object\<close> is in zod's default mode for unknown keys, which is to strip
  them: the output is a new object holding the parsed value of each key of the shape,
  in the order of the shape. A key of the shape that the input lacks is read as
  \<^verbatim>\<open>undefined\<close>, which none of these schemas accepts. \<^verbatim>\<open>schema.parse\<close> throws a
  \<^verbatim>\<open>ZodError\<close> when any check fails.
\<close>

datatype check = AtLeast rat | AtMost rat

datatype zschema =
    ZString
  | ZNumber "check list"
  | ZArray zschema
  | ZObject "(string \<times> zschema) list"

definition z_string :: zschema where
  "z_string = ZString"

definition z_number :: zschema where
  "z_number = ZNumber []"

fun z_min :: "rat \<Rightarrow> zschema \<Rightarrow> zschema" where
  "z_min n (ZNumber cs) = ZNumber (cs @ [AtLeast n])"
| "z_min n s = s"

fun z_max :: "rat \<Rightarrow> zschema \<Rightarrow> zschema" where
  "z_max n (ZNumber cs) = ZNumber (cs @ [AtMost n])"
| "z_max n s = s"

definition z_array :: "zschema \<Rightarrow> zschema" where
  "z_array s = ZArray s"

definition z_object :: "(string \<times> zschema) list \<Rightarrow> zschema" where
  "z_object shape = ZObject shape"

fun check_ok :: "rat \<Rightarrow> check \<Rightarrow> bool" where
  "check_ok x (AtLeast n) = (n \<le> x)"
| "check_ok x (AtMost n) = (x \<le> n)"

fun parse :: "zschema \<Rightarrow> json \<Rightarrow> exn + json"
  and parse_items :: "zschema \<Rightarrow> json list \<Rightarrow> exn + json list"
  and parse_shape :: "(string \<times> zschema) list \<Rightarrow> (string \<times> json) list \<Rightarrow> exn + (string \<times> json) list"
where
  "parse ZString v = (case v of JStr s \<Rightarrow> Inr (JStr s) | _ \<Rightarrow> Inl ZodError)"
| "parse (ZNumber cs) v =
     (case v of
        JNum x \<Rightarrow> if list_all (check_ok x) cs then Inr (JNum x) else Inl ZodError
      | _ \<Rightarrow> Inl ZodError)"
| "parse (ZArray el) v =
     (case v of
        JArr xs \<Rightarrow> (case parse_items el xs of Inl e \<Rightarrow> Inl e | Inr ys \<Rightarrow> Inr (JArr ys))
      | _ \<Rightarrow> Inl ZodError)"
| "parse (ZObject shape) v =
     (case v of
        JObj data \<Rightarrow> (case parse_shape shape data of Inl e \<Rightarrow> Inl e | Inr out \<Rightarrow> Inr (JObj out))
      | _ \<Rightarrow> Inl ZodError)"
| "parse_items el [] = Inr []"
| "parse_items el (x # xs) =
     (case parse el x of
        Inl e \<Rightarrow> Inl e
      | Inr y \<Rightarrow> (case parse_items el xs of Inl e \<Rightarrow> Inl e | Inr ys \<Rightarrow> Inr (y # ys)))"
| "parse_shape [] data = Inr []"
| "parse_shape ((key, validator) # shape) data =
     (case map_of data key of
        None \<Rightarrow> Inl ZodError
      | Some v \<Rightarrow>
          (case parse validator v of
             Inl e \<Rightarrow> Inl e
           | Inr y \<Rightarrow>
               (case parse_shape shape data of
                  Inl e \<Rightarrow> Inl e
                | Inr out \<Rightarrow> Inr ((key, y) # out))))"

text \<open>\<^verbatim>\<open>aiResponseSchema\<close>, as \<^verbatim>\<open>src/server/aiService.ts\<close> declares it.\<close>

definition aiResponseSchema :: zschema where
  "aiResponseSchema = z_object
     [(''claim'', z_string),
      (''premises'', z_array z_string),
      (''emotions'', z_object
         [(''Anger'', z_max 5 (z_min 1 z_number)),
          (''Sadness'', z_max 5 (z_min 1 z_number)),
          (''Joy'', z_max 5 (z_min 1 z_number)),
          (''Fear'', z_max 5 (z_min 1 z_number)),
          (''Surprise'', z_max 5 (z_min 1 z_number))])]"

section \<open>JSON.parse\<close>

text \<open>
  \<^verbatim>\<open>JSON.parse\<close> on a string: a lexer and a recursive-descent parser for the JSON
  grammar (ECMA-404), throwing \<^verbatim>\<open>SyntaxError\<close> on anything else. A string is its
  sequence of bytes in UTF-8; an escape \<^verbatim>\<open>\uXXXX\<close> is decoded to the bytes of its
  code point (an escaped surrogate pair to the four bytes of the character it encodes).
  A property that occurs twice keeps its first position and its last value, as
  assignment to a JavaScript object does.
\<close>

datatype token = LBrace | RBrace | LBrack | RBrack | Colon | Comma
  | TStr string | TNum rat | TTrue | TFalse | TNull

definition is_ws :: "char \<Rightarrow> bool" where
  "is_ws c = (c = CHR 0x20 \<or> c = CHR 0x09 \<or> c = CHR 0x0A \<or> c = CHR 0x0D)"

definition is_digit :: "char \<Rightarrow> bool" where
  "is_digit c = (48 \<le> (of_char c :: nat) \<and> (of_char c :: nat) \<le> 57)"

definition digit_val :: "char \<Rightarrow> nat" where
  "digit_val c = of_char c - 48"

definition digits_val :: "string \<Rightarrow> nat" where
  "digits_val ds = foldl (\<lambda>a d. 10 * a + digit_val d) 0 ds"

definition hex_val :: "char \<Rightarrow> nat option" where
  "hex_val c =
     (let n = (of_char c :: nat)
      in if 48 \<le> n \<and> n \<le> 57 then Some (n - 48)
         else if 65 \<le> n \<and> n \<le> 70 then Some (n - 55)
         else if 97 \<le> n \<and> n \<le> 102 then Some (n - 87)
         else None)"

definition hex4 :: "string \<Rightarrow> nat option" where
  "hex4 hs =
     (case map hex_val hs of
        [Some a, Some b, Some c, Some d] \<Rightarrow> Some (((a * 16 + b) * 16 + c) * 16 + d)
      | _ \<Rightarrow> None)"

definition utf8 :: "nat \<Rightarrow> string" where
  "utf8 u =
     (if u < 0x80 then [char_of u]
      else if u < 0x800 then [char_of (0xC0 + u div 0x40), char_of (0x80 + u mod 0x40)]
      else if u < 0x10000 then
        [char_of (0xE0 + u div 0x1000), char_of (0x80 + u div 0x40 mod 0x40),
         char_of (0x80 + u mod 0x40)]
      else
        [char_of (0xF0 + u div 0x40000), char_of (0x80 + u div 0x1000 mod 0x40),
         char_of (0x80 + u div 0x40 mod 0x40), char_of (0x80 + u mod 0x40)])"

definition unescape :: "char \<Rightarrow> char option" where
  "unescape e =
     (if e = CHR 0x22 then Some (CHR 0x22)
      else if e = CHR 0x5C then Some (CHR 0x5C)
      else if e = CHR ''/'' then Some (CHR ''/'')
      else if e = CHR ''b'' then Some (CHR 0x08)
      else if e = CHR ''f'' then Some (CHR 0x0C)
      else if e = CHR ''n'' then Some (CHR 0x0A)
      else if e = CHR ''r'' then Some (CHR 0x0D)
      else if e = CHR ''t'' then Some (CHR 0x09)
      else None)"

definition low_surrogate :: "string \<Rightarrow> nat option" where
  "low_surrogate cs =
     (if take 2 cs = [CHR 0x5C, CHR ''u''] then
        (case hex4 (take 4 (drop 2 cs)) of
           Some l \<Rightarrow> if 0xDC00 \<le> l \<and> l < 0xE000 then Some l else None
         | None \<Rightarrow> None)
      else None)"

definition lex_escape :: "string \<Rightarrow> (string \<times> string) option" where
  "lex_escape cs =
     (case cs of
        [] \<Rightarrow> None
      | e # cs' \<Rightarrow>
          if e = CHR ''u'' then
            (case hex4 (take 4 cs') of
               None \<Rightarrow> None
             | Some u \<Rightarrow>
                 (case (if 0xD800 \<le> u \<and> u < 0xDC00 then low_surrogate (drop 4 cs') else None) of
                    Some l \<Rightarrow>
                      Some (utf8 (0x10000 + (u - 0xD800) * 0x400 + (l - 0xDC00)), drop 10 cs')
                  | None \<Rightarrow> Some (utf8 u, drop 4 cs')))
          else
            (case unescape e of
               None \<Rightarrow> None
             | Some d \<Rightarrow> Some ([d], cs')))"

lemma lex_escape_shorter: "lex_escape cs = Some (d, r) \<Longrightarrow> length r \<le> length cs"
  by (auto simp: lex_escape_def split: list.splits if_splits option.splits)

function lex_string :: "string \<Rightarrow> (string \<times> string) option" where
  "lex_string [] = None"
| "lex_string (c # cs) =
     (if c = CHR 0x22 then Some ([], cs)
      else if c = CHR 0x5C then
        (case lex_escape cs of
           None \<Rightarrow> None
         | Some (d, r) \<Rightarrow> map_option (\<lambda>(s, r'). (d @ s, r')) (lex_string r))
      else if (of_char c :: nat) < 0x20 then None
      else map_option (\<lambda>(s, r'). (c # s, r')) (lex_string cs))"
  by pat_completeness auto
termination
  by (relation "measure length") (auto dest: lex_escape_shorter)

definition lex_int :: "string \<Rightarrow> (nat \<times> string) option" where
  "lex_int cs =
     (case cs of
        [] \<Rightarrow> None
      | d # r \<Rightarrow>
          if \<not> is_digit d then None
          else if d = CHR ''0'' then Some (0, r)
          else Some (digits_val (takeWhile is_digit cs), dropWhile is_digit cs))"

definition lex_frac :: "string \<Rightarrow> ((nat \<times> nat) \<times> string) option" where
  "lex_frac cs =
     (case cs of
        [] \<Rightarrow> Some ((0, 0), cs)
      | c # r \<Rightarrow>
          if c = CHR ''.'' then
            (let ds = takeWhile is_digit r
             in if ds = [] then None
                else Some ((digits_val ds, length ds), dropWhile is_digit r))
          else Some ((0, 0), cs))"

definition lex_exp :: "string \<Rightarrow> (int \<times> string) option" where
  "lex_exp cs =
     (case cs of
        [] \<Rightarrow> Some (0, cs)
      | c # r \<Rightarrow>
          if c = CHR ''e'' \<or> c = CHR ''E'' then
            (let (neg, r') =
                   (case r of
                      [] \<Rightarrow> (False, r)
                    | s # t \<Rightarrow>
                        if s = CHR ''-'' then (True, t)
                        else if s = CHR ''+'' then (False, t)
                        else (False, r));
                 ds = takeWhile is_digit r'
             in if ds = [] then None
                else Some (if neg then - int (digits_val ds) else int (digits_val ds),
                           dropWhile is_digit r'))
          else Some (0, cs))"

definition pow10 :: "int \<Rightarrow> rat" where
  "pow10 e = (if 0 \<le> e then 10 ^ nat e else 1 / 10 ^ nat (- e))"

definition lex_number :: "string \<Rightarrow> (rat \<times> string) option" where
  "lex_number cs =
     (case cs of
        [] \<Rightarrow> None
      | c # r \<Rightarrow>
          (let (sgn, cs1) = (if c = CHR ''-'' then (- 1, r) else (1, cs))
           in case lex_int cs1 of
                None \<Rightarrow> None
              | Some (i, cs2) \<Rightarrow>
                  (case lex_frac cs2 of
                     None \<Rightarrow> None
                   | Some ((f, k), cs3) \<Rightarrow>
                       (case lex_exp cs3 of
                          None \<Rightarrow> None
                        | Some (e, cs4) \<Rightarrow>
                            Some (sgn * (of_nat i + of_nat f / 10 ^ k) * pow10 e, cs4)))))"

lemma lex_string_shorter: "lex_string cs = Some (s, r) \<Longrightarrow> length r < length cs"
proof (induction cs arbitrary: s r rule: lex_string.induct)
  case 1
  then show ?case by simp
next
  case (2 c cs)
  show ?case
  proof (cases "c = CHR 0x22")
    case True
    with "2.prems" show ?thesis by simp
  next
    case quote: False
    show ?thesis
    proof (cases "c = CHR 0x5C")
      case True
      with quote "2.prems" obtain d r0 s0 where
        esc: "lex_escape cs = Some (d, r0)" and rec: "lex_string r0 = Some (s0, r)"
        by (auto split: option.splits)
      from "2.IH"(1) [OF quote True esc refl rec] have "length r < length r0" .
      with lex_escape_shorter [OF esc] show ?thesis by simp
    next
      case False
      with quote "2.prems" obtain s0 where
        ctl: "\<not> (of_char c :: nat) < 0x20" and rec: "lex_string cs = Some (s0, r)"
        by (auto split: if_splits)
      from "2.IH"(2) [OF quote False ctl rec] show ?thesis by simp
    qed
  qed
qed

lemma lex_int_shorter: "lex_int cs = Some (i, r) \<Longrightarrow> length r < length cs"
  by (auto simp: lex_int_def split: list.splits if_splits
      intro: le_imp_less_Suc length_dropWhile_le)

lemma lex_frac_shorter: "lex_frac cs = Some (p, r) \<Longrightarrow> length r \<le> length cs"
  by (auto simp: lex_frac_def Let_def split: list.splits if_splits
      intro: le_SucI length_dropWhile_le)

lemma lex_exp_shorter: "lex_exp cs = Some (e, r) \<Longrightarrow> length r \<le> length cs"
  apply (auto simp: lex_exp_def Let_def split: list.splits if_splits prod.splits
      intro: le_SucI length_dropWhile_le)
  done

lemma lex_number_shorter: "lex_number cs = Some (x, r) \<Longrightarrow> length r < length cs"
  apply (auto simp: lex_number_def Let_def split: list.splits if_splits prod.splits option.splits
      dest!: lex_int_shorter lex_frac_shorter lex_exp_shorter)
  done

function lex :: "string \<Rightarrow> token list option" where
  "lex [] = Some []"
| "lex (c # cs) =
     (if is_ws c then lex cs
      else if c = CHR ''{'' then map_option ((#) LBrace) (lex cs)
      else if c = CHR ''}'' then map_option ((#) RBrace) (lex cs)
      else if c = CHR ''['' then map_option ((#) LBrack) (lex cs)
      else if c = CHR '']'' then map_option ((#) RBrack) (lex cs)
      else if c = CHR '':'' then map_option ((#) Colon) (lex cs)
      else if c = CHR '','' then map_option ((#) Comma) (lex cs)
      else if c = CHR 0x22 then
        (case lex_string cs of
           None \<Rightarrow> None
         | Some (s, r) \<Rightarrow> map_option ((#) (TStr s)) (lex r))
      else if c = CHR ''-'' \<or> is_digit c then
        (case lex_number (c # cs) of
           None \<Rightarrow> None
         | Some (x, r) \<Rightarrow> map_option ((#) (TNum x)) (lex r))
      else if take 4 (c # cs) = ''true'' then map_option ((#) TTrue) (lex (drop 3 cs))
      else if take 5 (c # cs) = ''false'' then map_option ((#) TFalse) (lex (drop 4 cs))
      else if take 4 (c # cs) = ''null'' then map_option ((#) TNull) (lex (drop 3 cs))
      else None)"
  by pat_completeness auto
termination
  apply (relation "measure length")
  apply (simp_all only: wf_measure in_measure length_Cons lessI)
  subgoal for c cs x2 x y
    using lex_string_shorter [of cs x y] by (simp only: less_SucI)
  subgoal for c cs x2 x y
    using lex_number_shorter [of "c # cs" x y] by (simp only: length_Cons)
  subgoal for c cs
    by (rule le_imp_less_Suc) (simp only: length_drop diff_le_self)
  subgoal for c cs
    by (rule le_imp_less_Suc) (simp only: length_drop diff_le_self)
  subgoal for c cs
    by (rule le_imp_less_Suc) (simp only: length_drop diff_le_self)
  done


definition build_object :: "(string \<times> json) list \<Rightarrow> (string \<times> json) list" where
  "build_object ms = foldl (\<lambda>obj (k, v). AList.update k v obj) [] ms"

function parse_value :: "token list \<Rightarrow> (json \<times> token list) option"
  and parse_elements :: "token list \<Rightarrow> (json list \<times> token list) option"
  and parse_members :: "token list \<Rightarrow> ((string \<times> json) list \<times> token list) option"
where
  "parse_value [] = None"
| "parse_value (t # ts) =
     (case t of
        TStr s \<Rightarrow> Some (JStr s, ts)
      | TNum x \<Rightarrow> Some (JNum x, ts)
      | TTrue \<Rightarrow> Some (JBool True, ts)
      | TFalse \<Rightarrow> Some (JBool False, ts)
      | TNull \<Rightarrow> Some (JNull, ts)
      | LBrack \<Rightarrow>
          if take 1 ts = [RBrack] then Some (JArr [], tl ts)
          else map_option (\<lambda>(vs, r). (JArr vs, r)) (parse_elements ts)
      | LBrace \<Rightarrow>
          if take 1 ts = [RBrace] then Some (JObj [], tl ts)
          else map_option (\<lambda>(ms, r). (JObj (build_object ms), r)) (parse_members ts)
      | _ \<Rightarrow> None)"
| "parse_elements ts =
     (case parse_value ts of
        None \<Rightarrow> None
      | Some (v, r) \<Rightarrow>
          (case r of
             Comma # r' \<Rightarrow> map_option (\<lambda>(vs, r''). (v # vs, r'')) (parse_elements r')
           | RBrack # r' \<Rightarrow> Some ([v], r')
           | _ \<Rightarrow> None))"
| "parse_members ts =
     (case ts of
        TStr k # Colon # ts' \<Rightarrow>
          (case parse_value ts' of
             None \<Rightarrow> None
           | Some (v, r) \<Rightarrow>
               (case r of
                  Comma # r' \<Rightarrow> map_option (\<lambda>(ms, r''). ((k, v) # ms, r'')) (parse_members r')
                | RBrace # r' \<Rightarrow> Some ([(k, v)], r')
                | _ \<Rightarrow> None))
      | _ \<Rightarrow> None)"
  by pat_completeness auto


lemma parse_shorter:
  "parse_value_parse_elements_parse_members_dom (Inl ts) \<Longrightarrow>
     parse_value ts = Some (v, r) \<Longrightarrow> length r < length ts"
  "parse_value_parse_elements_parse_members_dom (Inr (Inl ts')) \<Longrightarrow>
     parse_elements ts' = Some (vs, r') \<Longrightarrow> length r' < length ts'"
  "parse_value_parse_elements_parse_members_dom (Inr (Inr ts'')) \<Longrightarrow>
     parse_members ts'' = Some (ms, r'') \<Longrightarrow> length r'' < length ts''"
proof (induction ts and ts' and ts'' arbitrary: v r and vs r' and ms r''
    rule: parse_value_parse_elements_parse_members.pinduct)
  case 1
  then show ?case by (simp add: parse_value.psimps)
next
  case (2 t ts)
  then show ?case
    by (cases t) (auto simp: parse_value.psimps split: if_splits list.splits)
next
  case (3 ts)
  then show ?case
    by (fastforce simp: parse_elements.psimps split: option.splits list.splits token.splits)
next
  case (4 ts)
  then show ?case
    by (fastforce simp: parse_members.psimps split: option.splits list.splits token.splits)
qed

termination parse_value
  apply (relation "measure (\<lambda>x. case x of Inl ts \<Rightarrow> 2 * length ts | Inr (Inl ts) \<Rightarrow> 2 * length ts + 1 | Inr (Inr ts) \<Rightarrow> 2 * length ts + 1)")
  apply simp_all
  subgoal for ts x2 x y x21 x22
    using parse_shorter(1) [of ts x "Comma # x22"] by simp
  subgoal for ts x21 x22 x7 x21a x22a x2 x y x21b x22b
    using parse_shorter(1) [of x22a x "Comma # x22b"] by simp
  done

definition JSON_parse :: "string \<Rightarrow> exn + json" where
  "JSON_parse text =
     (case lex text of
        None \<Rightarrow> Inl SyntaxError
      | Some ts \<Rightarrow>
          (case parse_value ts of
             Some (v, []) \<Rightarrow> Inr v
           | _ \<Rightarrow> Inl SyntaxError))"

section \<open>Isolating the JSON object in a reply\<close>

text \<open>
  \<^verbatim>\<open>content.match(/\{[\s\S]*\}/)\<close>: the leftmost match of an opening brace, any
  characters (the star is greedy, so as many as possible), and a closing brace. The
  match starts at the first opening brace and ends at the last closing brace after it;
  there is no match when no closing brace follows the first opening brace. The result
  is \<^verbatim>\<open>jsonMatch[0]\<close>, or \<open>None\<close> for \<^verbatim>\<open>null\<close>.
\<close>

definition match_json_span :: "string \<Rightarrow> string option" where
  "match_json_span content =
     (case dropWhile (\<lambda>c. c \<noteq> CHR ''{'') content of
        [] \<Rightarrow> None
      | brace # rest \<Rightarrow>
          if CHR ''}'' \<in> set rest
          then Some (brace # rev (dropWhile (\<lambda>c. c \<noteq> CHR ''}'') (rev rest)))
          else None)"

text \<open>A text contains a brace span when an opening brace stands somewhere before a closing one.\<close>

definition has_json_span :: "string \<Rightarrow> bool" where
  "has_json_span s \<longleftrightarrow> (\<exists>a b c. s = a @ [CHR ''{''] @ b @ [CHR ''}''] @ c)"

section \<open>Provider replies and the environment\<close>

text \<open>
  The reply envelopes, with the fields the code reads (a field of a nested object is
  named after the object and the field: \<open>choice_message\<close> is \<^verbatim>\<open>message\<close> of a
  choice, \<open>part_text\<close> is \<^verbatim>\<open>text\<close> of a part). A field that the code reads
  through \<^verbatim>\<open>?.\<close>, or tests with \<^verbatim>\<open>!\<close>, is optional: \<open>None\<close> stands for
  \<^verbatim>\<open>undefined\<close> and \<^verbatim>\<open>null\<close>. The completion text, where present, is a string,
  as the providers document it.
\<close>

record message =
  message_content :: "string option"

record choice =
  choice_message :: "message option"

record api_error =
  error_message :: "string option"

record part =
  part_text :: "string option"

record candidate_content =
  content_parts :: "part list option"

record candidate =
  candidate_content :: "candidate_content option"

record reply_body =
  error :: "api_error option"
  choices :: "choice list option"
  candidates :: "candidate list option"

text \<open>
  The \<^verbatim>\<open>Response\<close> of \<^verbatim>\<open>fetch\<close>: \<open>json\<close> is what \<^verbatim>\<open>response.json()\<close> resolves
  to, or the error it rejects with (a \<^verbatim>\<open>SyntaxError\<close> for a body that is not JSON).
\<close>

record response =
  ok :: bool
  statusText :: string
  json :: "exn + reply_body"

text \<open>The second argument of \<^verbatim>\<open>fetch\<close>; \<open>body\<close> is the value given to \<^verbatim>\<open>JSON.stringify\<close>.\<close>

record request_init =
  "method" :: string
  headers :: "(string \<times> string) list"
  body :: json

text \<open>
  What a call can observe outside itself: \<open>env\<close> is \<^verbatim>\<open>process.env\<close>;
  \<open>openai_create apiKey params\<close> is
  \<^verbatim>\<open>new OpenAI({ apiKey }).chat.completions.create(params)\<close> and \<open>fetch url init\<close> is
  \<^verbatim>\<open>fetch(url, init)\<close>, each either rejecting with an error or resolving to a reply.
\<close>

record world =
  env :: "string \<rightharpoonup> string"
  openai_create :: "string \<Rightarrow> json \<Rightarrow> exn + reply_body"
  fetch :: "string \<Rightarrow> request_init \<Rightarrow> exn + response"

text \<open>The outbound network calls a function issued, in order.\<close>

datatype call = OpenAICall string json | FetchCall string request_init

text \<open>
  JavaScript's truthiness for a value that is a string, \<^verbatim>\<open>null\<close> or \<^verbatim>\<open>undefined\<close>:
  \<open>truthy v = Some s\<close> when \<open>v\<close> is the non-empty string \<open>s\<close>, and \<open>None\<close> when
  \<^verbatim>\<open>!v\<close> holds.
\<close>

definition truthy :: "string option \<Rightarrow> string option" where
  "truthy v = (case v of None \<Rightarrow> None | Some s \<Rightarrow> if s = [] then None else Some s)"

text \<open>\<^verbatim>\<open>xs?.[0]\<close> on an array: its first element, \<^verbatim>\<open>undefined\<close> for the empty array.\<close>

definition first :: "'a list \<Rightarrow> 'a option" where
  "first xs = (case xs of [] \<Rightarrow> None | x # _ \<Rightarrow> Some x)"

section \<open>The analysis service (src/server/aiService.ts)\<close>

definition LOGOS_SYSTEM_PROMPT :: string where
  \<open>LOGOS_SYSTEM_PROMPT = concat (map (\<lambda>line. line @ [CHR 0x0A])
     ['''',
      ''You are 'Logos', an expert AI assistant in logic, rhetoric, and critical thinking. Your purpose is to dissect arguments provided by the user, revealing their structure, emotional tone, logical soundness, strengths, and weaknesses.'',
      '''',
      ''When presented with the user's text:'',
      '''',
      ''Deconstruct: Isolate the core Claim (Conclusion) and the foundational Premises (Reasons/Evidence) provided in the text. Present the premises as a list of strings.'',
      '''',
      ''Emotional Tone Analysis & Scoring: Analyze the emotional tone conveyed by the text. Identify the dominant emotions and rate the intensity of the following core emotions on a scale of 1 to 5 (where 1 = Very Low/Absent, 2 = Low, 3 = Moderate, 4 = High, 5 = Very High):'',
      '''',
      ''Anger: [Score 1-5]'',
      ''Sadness: [Score 1-5]'',
      ''Joy/Positive: [Score 1-5]'',
      ''Fear/Anxiety: [Score 1-5]'',
      ''Surprise: [Score 1-5]'',
      '''',
      ''Output Format: Return your analysis strictly in JSON format. The JSON object should have keys: claim (string), premises (array of strings), and emotions (an object with keys Anger, Sadness, Joy, Fear, Surprise, each having a numerical score 1-5).''])\<close>

text \<open>
  The request of each provider: the argument of \<^verbatim>\<open>chat.completions.create\<close>, and
  the URL and the options of each \<^verbatim>\<open>fetch\<close>.
\<close>

definition openai_params :: "string \<Rightarrow> json" where
  "openai_params text = JObj
     [(''model'', JStr ''gpt-4o''),
      (''messages'', JArr
         [JObj [(''role'', JStr ''system''), (''content'', JStr LOGOS_SYSTEM_PROMPT)],
          JObj [(''role'', JStr ''user''), (''content'', JStr text)]]),
      (''response_format'', JObj [(''type'', JStr ''json_object'')])]"

definition deepseek_url :: string where
  "deepseek_url = ''https://api.deepseek.com/v1/chat/completions''"

definition deepseek_init :: "string \<Rightarrow> string \<Rightarrow> request_init" where
  "deepseek_init apiKey text =
     \<lparr>method = ''POST'',
      headers = [(''Content-Type'', ''application/json''),
                 (''Authorization'', ''Bearer '' @ apiKey)],
      body = JObj
        [(''model'', JStr ''deepseek-chat''),
         (''messages'', JArr
            [JObj [(''role'', JStr ''system''), (''content'', JStr LOGOS_SYSTEM_PROMPT)],
             JObj [(''role'', JStr ''user''), (''content'', JStr text)]]),
         (''response_format'', JObj [(''type'', JStr ''json_object'')])]\<rparr>"

definition gemini_url :: "string \<Rightarrow> string" where
  "gemini_url apiKey =
     ''https://generativelanguage.googleapis.com/v1beta/models/gemini-pro:generateContent?key='' @ apiKey"

definition gemini_init :: "string \<Rightarrow> request_init" where
  "gemini_init text =
     \<lparr>method = ''POST'',
      headers = [(''Content-Type'', ''application/json'')],
      body = JObj
        [(''contents'', JArr
            [JObj [(''role'', JStr ''user''),
                   (''parts'', JArr
                      [JObj [(''text'', JStr LOGOS_SYSTEM_PROMPT)],
                       JObj [(''text'', JStr text)]])]]),
         (''generationConfig'', JObj [(''temperature'', JNum (2 / 10))])]\<rparr>"

text \<open>
  Where each provider's completion text is read. \<^verbatim>\<open>response.choices[0].message.content\<close>
  throws a \<^verbatim>\<open>TypeError\<close> when \<^verbatim>\<open>choices\<close>, its first element or \<^verbatim>\<open>message\<close> is
  missing; the other two are read through \<^verbatim>\<open>?.\<close> and give \<^verbatim>\<open>undefined\<close> then.
\<close>

definition openai_content :: "reply_body \<Rightarrow> exn + string option" where
  "openai_content response =
     (case choices response of
        None \<Rightarrow> Inl TypeError
      | Some cs \<Rightarrow>
          (case first cs of
             None \<Rightarrow> Inl TypeError
           | Some c \<Rightarrow>
               (case choice_message c of
                  None \<Rightarrow> Inl TypeError
                | Some m \<Rightarrow> Inr (message_content m))))"

definition deepseek_content :: "reply_body \<Rightarrow> string option" where
  "deepseek_content responseData =
     Option.bind (Option.bind (Option.bind (choices responseData) first) choice_message)
       message_content"

definition gemini_content :: "reply_body \<Rightarrow> string option" where
  "gemini_content responseData =
     Option.bind
       (Option.bind
          (Option.bind (Option.bind (Option.bind (candidates responseData) first) candidate_content)
             content_parts)
          first)
       part_text"

text \<open>\<^verbatim>\<open>errorData.error?.message || response.statusText\<close>\<close>

definition api_error_text :: "reply_body \<Rightarrow> response \<Rightarrow> string" where
  "api_error_text errorData response =
     (case truthy (Option.bind (error errorData) error_message) of
        Some m \<Rightarrow> m
      | None \<Rightarrow> statusText response)"

text \<open>
  Each function returns the network calls it issued and its outcome: \<open>Inr\<close> the
  value the promise resolves to, \<open>Inl\<close> the error it rejects with. The
  \<^verbatim>\<open>try\<close> block is \<open>attempt\<close>; the \<^verbatim>\<open>catch\<close> block is the case analysis after it.
  (\<^verbatim>\<open>console.error\<close> is not modelled.)
\<close>

definition analyzeWithOpenAI :: "world \<Rightarrow> string \<Rightarrow> call list \<times> (exn + json)" where
  "analyzeWithOpenAI w text =
     (case truthy (env w ''OPENAI_API_KEY'') of
        None \<Rightarrow>
          ([], Inl (Error ''OpenAI API key is missing. Please add it to your Replit Secrets.''))
      | Some apiKey \<Rightarrow>
          (let attempt =
                 (case openai_create w apiKey (openai_params text) of
                    Inl e \<Rightarrow> Inl e
                  | Inr response \<Rightarrow>
                      (case openai_content response of
                         Inl e \<Rightarrow> Inl e
                       | Inr c \<Rightarrow>
                           (case truthy c of
                              None \<Rightarrow> Inl (Error ''OpenAI returned an empty response'')
                            | Some content \<Rightarrow>
                                (case JSON_parse content of
                                   Inl e \<Rightarrow> Inl e
                                 | Inr parsedData \<Rightarrow> parse aiResponseSchema parsedData))))
           in ([OpenAICall apiKey (openai_params text)],
               (case attempt of
                  Inl e \<Rightarrow>
                    if e = ZodError then
                      Inl (Error ''Invalid response format from OpenAI. Please try again.'')
                    else if e = SyntaxError then
                      Inl (Error ''Failed to parse JSON response from OpenAI. Please try again.'')
                    else Inl e
                | Inr result \<Rightarrow> Inr result))))"

definition analyzeWithDeepseek :: "world \<Rightarrow> string \<Rightarrow> call list \<times> (exn + json)" where
  "analyzeWithDeepseek w text =
     (case truthy (env w ''DEEPSEEK_API_KEY'') of
        None \<Rightarrow>
          ([], Inl (Error ''DeepSeek API key is missing. Please add it to your Replit Secrets.''))
      | Some apiKey \<Rightarrow>
          (let attempt =
                 (case fetch w deepseek_url (deepseek_init apiKey text) of
                    Inl e \<Rightarrow> Inl e
                  | Inr response \<Rightarrow>
                      if \<not> ok response then
                        (case json response of
                           Inl e \<Rightarrow> Inl e
                         | Inr errorData \<Rightarrow>
                             Inl (Error (''DeepSeek API error: '' @ api_error_text errorData response)))
                      else
                        (case json response of
                           Inl e \<Rightarrow> Inl e
                         | Inr responseData \<Rightarrow>
                             (case truthy (deepseek_content responseData) of
                                None \<Rightarrow> Inl (Error ''DeepSeek returned an empty response'')
                              | Some content \<Rightarrow>
                                  (case JSON_parse content of
                                     Inl e \<Rightarrow> Inl e
                                   | Inr parsedData \<Rightarrow> parse aiResponseSchema parsedData))))
           in ([FetchCall deepseek_url (deepseek_init apiKey text)],
               (case attempt of
                  Inl e \<Rightarrow>
                    if e = ZodError then
                      Inl (Error ''Invalid response format from DeepSeek. Please try again.'')
                    else if e = SyntaxError then
                      Inl (Error ''Failed to parse JSON response from DeepSeek. Please try again.'')
                    else Inl e
                | Inr result \<Rightarrow> Inr result))))"

definition analyzeWithGemini :: "world \<Rightarrow> string \<Rightarrow> call list \<times> (exn + json)" where
  "analyzeWithGemini w text =
     (case truthy (env w ''GEMINI_API_KEY'') of
        None \<Rightarrow>
          ([], Inl (Error ''Gemini API key is missing. Please add it to your Replit Secrets.''))
      | Some apiKey \<Rightarrow>
          (let attempt =
                 (case fetch w (gemini_url apiKey) (gemini_init text) of
                    Inl e \<Rightarrow> Inl e
                  | Inr response \<Rightarrow>
                      if \<not> ok response then
                        (case json response of
                           Inl e \<Rightarrow> Inl e
                         | Inr errorData \<Rightarrow>
                             Inl (Error (''Gemini API error: '' @ api_error_text errorData response)))
                      else
                        (case json response of
                           Inl e \<Rightarrow> Inl e
                         | Inr responseData \<Rightarrow>
                             (case truthy (gemini_content responseData) of
                                None \<Rightarrow> Inl (Error ''Gemini returned an empty response'')
                              | Some content \<Rightarrow>
                                  (case match_json_span content of
                                     None \<Rightarrow> Inl (Error ''Could not extract JSON from Gemini response'')
                                   | Some jsonMatch \<Rightarrow>
                                       (case JSON_parse jsonMatch of
                                          Inl e \<Rightarrow> Inl e
                                        | Inr parsedData \<Rightarrow> parse aiResponseSchema parsedData)))))
           in ([FetchCall (gemini_url apiKey) (gemini_init text)],
               (case attempt of
                  Inl e \<Rightarrow>
                    if e = ZodError then
                      Inl (Error ''Invalid response format from Gemini. Please try again.'')
                    else if e = SyntaxError then
                      Inl (Error ''Failed to parse JSON response from Gemini. Please try again.'')
                    else Inl e
                | Inr result \<Rightarrow> Inr result))))"

definition analyzeArgumentWithAI :: "world \<Rightarrow> string \<Rightarrow> string \<Rightarrow> call list \<times> (exn + json)" where
  "analyzeArgumentWithAI w text model =
     (if model = ''openai'' then analyzeWithOpenAI w text
      else if model = ''deepseek'' then analyzeWithDeepseek w text
      else if model = ''gemini'' then analyzeWithGemini w text
      else ([], Inl (Error (''Unsupported AI model: '' @ model))))"

section \<open>The client call (src/client/src/lib/api.ts)\<close>

text \<open>
  What \<^verbatim>\<open>analyzeArgument\<close> can throw: an error, or (from \<^verbatim>\<open>apiRequest\<close>) a
  \<^verbatim>\<open>Response\<close>, given here by what its \<^verbatim>\<open>text()\<close> resolves to.
\<close>

datatype thrown = ThrownError exn | ThrownResponse string

text \<open>
  \<^verbatim>\<open>apiRequest\<close> (./queryClient) and \<^verbatim>\<open>saveHistoryItem\<close> (./localStorage) are
  imported by the client: they are parameters here. \<open>apiRequest m url payload\<close> throws
  or returns a response, given by what its \<^verbatim>\<open>json()\<close> resolves to or rejects with;
  \<open>saveHistoryItem text result model\<close> returns (\<open>None\<close>) or throws.
\<close>

record client =
  apiRequest :: "string \<Rightarrow> string \<Rightarrow> json \<Rightarrow> thrown + (exn + json)"
  saveHistoryItem :: "string \<Rightarrow> json \<Rightarrow> string \<Rightarrow> thrown option"

text \<open>
  \<^verbatim>\<open>analyzeArgument\<close> returns the calls of \<^verbatim>\<open>saveHistoryItem\<close> it made (the text,
  the result and the label \<^verbatim>\<open>modelToSave\<close>) and its outcome.
\<close>

definition analyzeArgument ::
  "client \<Rightarrow> string \<Rightarrow> string \<Rightarrow> string option \<Rightarrow> (string \<times> json \<times> string) list \<times> (thrown + json)"
where
  "analyzeArgument c text model openRouterModel =
     (let payload = JObj
            ([(''text'', JStr text), (''model'', JStr model)] @
             (case truthy openRouterModel of
                Some variant \<Rightarrow>
                  if model = ''openrouter'' then [(''openRouterModel'', JStr variant)] else []
              | None \<Rightarrow> []));
          attempt =
            (case apiRequest c ''POST'' ''/api/analyze'' payload of
               Inl t \<Rightarrow> ([], Inl t)
             | Inr response \<Rightarrow>
                 (case response of
                    Inl e \<Rightarrow> ([], Inl (ThrownError e))
                  | Inr result \<Rightarrow>
                      (let modelToSave =
                             (case truthy openRouterModel of
                                Some variant \<Rightarrow>
                                  if model = ''openrouter'' then ''openrouter-'' @ variant else model
                              | None \<Rightarrow> model)
                       in ([(text, result, modelToSave)],
                           (case saveHistoryItem c text result modelToSave of
                              Some t \<Rightarrow> Inl t
                            | None \<Rightarrow> Inr result)))))
      in (fst attempt,
          (case snd attempt of
             Inl (ThrownResponse errorText) \<Rightarrow>
               Inl (ThrownError (Error (if errorText = [] then ''Failed to analyze argument'' else errorText)))
           | Inl (ThrownError e) \<Rightarrow> Inl (ThrownError e)
           | Inr result \<Rightarrow> Inr result)))"

section \<open>Notions the properties are stated with\<close>

definition emotion_names :: "string list" where
  "emotion_names = [''Anger'', ''Sadness'', ''Joy'', ''Fear'', ''Surprise'']"

text \<open>Reading a property of an object, and the list of an object's keys.\<close>

definition get_field :: "json \<Rightarrow> string \<Rightarrow> json option" where
  "get_field v key = (case v of JObj data \<Rightarrow> map_of data key | _ \<Rightarrow> None)"

definition object_keys :: "json \<Rightarrow> string list" where
  "object_keys v = (case v of JObj data \<Rightarrow> map fst data | _ \<Rightarrow> [])"

definition is_string :: "json \<Rightarrow> bool" where
  "is_string v = (case v of JStr _ \<Rightarrow> True | _ \<Rightarrow> False)"

definition is_number :: "json \<Rightarrow> bool" where
  "is_number v = (case v of JNum _ \<Rightarrow> True | _ \<Rightarrow> False)"

definition is_integer :: "rat \<Rightarrow> bool" where
  "is_integer x \<longleftrightarrow> of_int \<lfloor>x\<rfloor> = x"

text \<open>
  What the schema asks of a parsed value, and what it returns for a value that
  conforms: \<open>claim\<close> a string, \<open>premises\<close> an array of strings, \<open>emotions\<close> with a
  number between 1 and 5 under each of the five names; the result has the three keys of
  the schema, and under \<open>emotions\<close> the five emotion keys with their values.
\<close>

definition is_string_array :: "json \<Rightarrow> bool" where
  "is_string_array v = (case v of JArr ps \<Rightarrow> list_all is_string ps | _ \<Rightarrow> False)"

definition score_ok :: "json option \<Rightarrow> bool" where
  "score_ok v = (case v of Some (JNum x) \<Rightarrow> 1 \<le> x \<and> x \<le> 5 | _ \<Rightarrow> False)"

definition scores_ok :: "json \<Rightarrow> bool" where
  "scores_ok em = list_all (\<lambda>k. score_ok (get_field em k)) emotion_names"

definition scores_of :: "json \<Rightarrow> json" where
  "scores_of em = JObj (map (\<lambda>k. (k, the (get_field em k))) emotion_names)"

definition conforms :: "json \<Rightarrow> bool" where
  "conforms v \<longleftrightarrow>
     (case get_field v ''claim'' of Some c \<Rightarrow> is_string c | None \<Rightarrow> False) \<and>
     (case get_field v ''premises'' of Some ps \<Rightarrow> is_string_array ps | None \<Rightarrow> False) \<and>
     (case get_field v ''emotions'' of Some em \<Rightarrow> scores_ok em | None \<Rightarrow> False)"

definition validated :: "json \<Rightarrow> json" where
  "validated v = JObj
     [(''claim'', the (get_field v ''claim'')),
      (''premises'', the (get_field v ''premises'')),
      (''emotions'', scores_of (the (get_field v ''emotions'')))]"

text \<open>
  A provider path reaches validation with the parsed value \<open>v\<close>: the credential is
  set, the provider replied, the reply carries a completion text, and that text (for
  Gemini, its brace span) parses to \<open>v\<close>.
\<close>

definition openai_parsed :: "world \<Rightarrow> string \<Rightarrow> json \<Rightarrow> bool" where
  "openai_parsed w text v \<longleftrightarrow>
     (\<exists>apiKey response content.
        truthy (env w ''OPENAI_API_KEY'') = Some apiKey \<and>
        openai_create w apiKey (openai_params text) = Inr response \<and>
        openai_content response = Inr (Some content) \<and> content \<noteq> [] \<and>
        JSON_parse content = Inr v)"

definition deepseek_parsed :: "world \<Rightarrow> string \<Rightarrow> json \<Rightarrow> bool" where
  "deepseek_parsed w text v \<longleftrightarrow>
     (\<exists>apiKey response responseData content.
        truthy (env w ''DEEPSEEK_API_KEY'') = Some apiKey \<and>
        fetch w deepseek_url (deepseek_init apiKey text) = Inr response \<and>
        ok response \<and> json response = Inr responseData \<and>
        deepseek_content responseData = Some content \<and> content \<noteq> [] \<and>
        JSON_parse content = Inr v)"

definition gemini_parsed :: "world \<Rightarrow> string \<Rightarrow> json \<Rightarrow> bool" where
  "gemini_parsed w text v \<longleftrightarrow>
     (\<exists>apiKey response responseData content jsonMatch.
        truthy (env w ''GEMINI_API_KEY'') = Some apiKey \<and>
        fetch w (gemini_url apiKey) (gemini_init text) = Inr response \<and>
        ok response \<and> json response = Inr responseData \<and>
        gemini_content responseData = Some content \<and> content \<noteq> [] \<and>
        match_json_span content = Some jsonMatch \<and>
        JSON_parse jsonMatch = Inr v)"

definition parsed_reply :: "world \<Rightarrow> string \<Rightarrow> string \<Rightarrow> json \<Rightarrow> bool" where
  "parsed_reply w text model v \<longleftrightarrow>
     model = ''openai'' \<and> openai_parsed w text v \<or>
     model = ''deepseek'' \<and> deepseek_parsed w text v \<or>
     model = ''gemini'' \<and> gemini_parsed w text v"

text \<open>The name each provider's error messages use.\<close>

definition provider_name :: "string \<Rightarrow> string" where
  "provider_name model =
     (if model = ''openai'' then ''OpenAI''
      else if model = ''deepseek'' then ''DeepSeek''
      else ''Gemini'')"

definition invalid_format :: "string \<Rightarrow> exn" where
  "invalid_format model =
     Error (''Invalid response format from '' @ provider_name model @ ''. Please try again.'')"

section \<open>Example replies\<close>

text \<open>
  A world in which the three credentials are set and every provider answers with the
  completion text \<open>s\<close>: the reply body carries it both as the first choice and as
  the first part of the first candidate.
\<close>

definition stub_body :: "string \<Rightarrow> reply_body" where
  "stub_body s =
     \<lparr>error = None,
      choices = Some [\<lparr>choice_message = Some \<lparr>message_content = Some s\<rparr>\<rparr>],
      candidates = Some
        [\<lparr>candidate_content = Some \<lparr>content_parts = Some [\<lparr>part_text = Some s\<rparr>]\<rparr>\<rparr>]\<rparr>"

definition stub_world :: "string \<Rightarrow> world" where
  "stub_world s =
     \<lparr>env = [''OPENAI_API_KEY'' \<mapsto> ''sk-openai'',
             ''DEEPSEEK_API_KEY'' \<mapsto> ''sk-deepseek'',
             ''GEMINI_API_KEY'' \<mapsto> ''sk-gemini''],
      openai_create = (\<lambda>apiKey params. Inr (stub_body s)),
      fetch = (\<lambda>url init. Inr \<lparr>ok = True, statusText = ''OK'', json = Inr (stub_body s)\<rparr>)\<rparr>"

text \<open>The scenario of the specification: the argument text, the stubbed reply and its value.\<close>

definition scenario_text :: string where
  "scenario_text = ''The sky is blue. Therefore, the ocean is blue.''"

definition scenario_reply :: string where
  \<open>scenario_reply =
     ''{"claim":"The ocean is blue","premises":["The sky is blue"],"emotions":{"Anger":1,"Sadness":1,"Joy":2,"Fear":1,"Surprise":1}}''\<close>

definition scenario_object :: json where
  "scenario_object = JObj
     [(''claim'', JStr ''The ocean is blue''),
      (''premises'', JArr [JStr ''The sky is blue'']),
      (''emotions'', JObj
         [(''Anger'', JNum 1), (''Sadness'', JNum 1), (''Joy'', JNum 2),
          (''Fear'', JNum 1), (''Surprise'', JNum 1)])]"

text \<open>A reply object with the given score for Joy, and the other fields of the scenario.\<close>

definition reply_with_joy :: "json \<Rightarrow> json" where
  "reply_with_joy x = JObj
     [(''claim'', JStr ''The ocean is blue''),
      (''premises'', JArr [JStr ''The sky is blue'']),
      (''emotions'', JObj
         [(''Anger'', JNum 1), (''Sadness'', JNum 1), (''Joy'', x),
          (''Fear'', JNum 1), (''Surprise'', JNum 1)])]"

text \<open>The JSON text of such a reply, with the text \<open>s\<close> as the score for Joy.\<close>

definition reply_text_with_joy :: "string \<Rightarrow> string" where
  \<open>reply_text_with_joy s =
     ''{"claim":"The ocean is blue","premises":["The sky is blue"],"emotions":{"Anger":1,"Sadness":1,"Joy":''
     @ s @ '',"Fear":1,"Surprise":1}}''\<close>

text \<open>The reply of the scenario with one more emotion, as a value and as JSON text.\<close>

definition reply_with_extra_emotion :: json where
  "reply_with_extra_emotion = JObj
     [(''claim'', JStr ''The ocean is blue''),
      (''premises'', JArr [JStr ''The sky is blue'']),
      (''emotions'', JObj
         [(''Anger'', JNum 1), (''Sadness'', JNum 1), (''Joy'', JNum 2),
          (''Fear'', JNum 1), (''Surprise'', JNum 1), (''Disgust'', JNum 3)])]"

definition reply_text_with_extra_emotion :: string where
  \<open>reply_text_with_extra_emotion =
     ''{"claim":"The ocean is blue","premises":["The sky is blue"],"emotions":{"Anger":1,"Sadness":1,"Joy":2,"Fear":1,"Surprise":1,"Disgust":3}}''\<close>

text \<open>
  A parsed value without the emotion keys that the schema does not name: the same
  object, with its \<open>emotions\<close> object cut down to the five names.
\<close>

definition without_extra_emotions :: "json \<Rightarrow> json" where
  "without_extra_emotions v =
     (case v of
        JObj data \<Rightarrow>
          JObj (map (\<lambda>(key, x).
                  (key, if key = ''emotions''
                        then (case x of
                                JObj em \<Rightarrow> JObj (filter (\<lambda>(k, y). k \<in> set emotion_names) em)
                              | _ \<Rightarrow> x)
                        else x))
                data)
      | _ \<Rightarrow> v)"

text \<open>The reply of the scenario with two more top-level properties.\<close>

definition reply_with_extra_properties :: json where
  "reply_with_extra_properties = JObj
     [(''model'', JStr ''gpt-4o''),
      (''claim'', JStr ''The ocean is blue''),
      (''premises'', JArr [JStr ''The sky is blue'']),
      (''emotions'', JObj
         [(''Anger'', JNum 1), (''Sadness'', JNum 1), (''Joy'', JNum 2),
          (''Fear'', JNum 1), (''Surprise'', JNum 1)]),
      (''confidence'', JNum (9 / 10))]"

definition reply_text_with_extra_properties :: string where
  \<open>reply_text_with_extra_properties =
     ''{"model":"gpt-4o","claim":"The ocean is blue","premises":["The sky is blue"],"emotions":{"Anger":1,"Sadness":1,"Joy":2,"Fear":1,"Surprise":1},"confidence":0.9}''\<close>

text \<open>A world with no credential, and one that differs from \<open>stub_world\<close> only in credentials.\<close>

definition no_credentials :: "string \<Rightarrow> world" where
  "no_credentials s = (stub_world s)\<lparr>env := Map.empty\<rparr>"

definition only_openai_credential :: "string \<Rightarrow> world" where
  "only_openai_credential s = (stub_world s)\<lparr>env := [''OPENAI_API_KEY'' \<mapsto> ''sk-openai'']\<rparr>"

text \<open>A client whose request returns the result of the scenario and whose history accepts it.\<close>

definition stub_client :: client where
  "stub_client =
     \<lparr>apiRequest = (\<lambda>m url payload. Inr (Inr scenario_object)),
      saveHistoryItem = (\<lambda>text result model. None)\<rparr>"

section \<open>Facts about the validator\<close>

lemma aiResponseSchema_shape:
  "aiResponseSchema = ZObject
     [(''claim'', ZString),
      (''premises'', ZArray ZString),
      (''emotions'', ZObject (map (\<lambda>k. (k, ZNumber [AtLeast 1, AtMost 5])) emotion_names))]"
  by (simp add: aiResponseSchema_def z_object_def z_string_def z_array_def z_number_def
      emotion_names_def)

lemma parse_throws_ZodError:
  "parse s v = Inl e \<Longrightarrow> e = ZodError"
  "parse_items s xs = Inl e \<Longrightarrow> e = ZodError"
  "parse_shape shape data = Inl e \<Longrightarrow> e = ZodError"
  by (induction s v and s xs and shape data arbitrary: e and e and e
      rule: parse_parse_items_parse_shape.induct)
    (auto split: json.splits sum.splits option.splits if_splits)

lemma parse_string_eq:
  "parse ZString v = (if is_string v then Inr v else Inl ZodError)"
  by (cases v) (auto simp: is_string_def)

lemma parse_score_eq:
  "parse (ZNumber [AtLeast 1, AtMost 5]) v =
     (case v of
        JNum x \<Rightarrow> if 1 \<le> x \<and> x \<le> 5 then Inr (JNum x) else Inl ZodError
      | _ \<Rightarrow> Inl ZodError)"
  by (cases v) auto

lemma parse_items_string_eq:
  "parse_items ZString xs = (if list_all is_string xs then Inr xs else Inl ZodError)"
  by (induction xs) (auto simp: parse_string_eq simp del: parse.simps)

lemma parse_premises_eq:
  "parse (ZArray ZString) v = (if is_string_array v then Inr v else Inl ZodError)"
  by (cases v) (auto simp: parse_items_string_eq is_string_array_def)

lemma get_field_JObj: "get_field (JObj data) key = map_of data key"
  by (simp add: get_field_def)

lemma parse_scores_eq:
  "parse_shape (map (\<lambda>k. (k, ZNumber [AtLeast 1, AtMost 5])) ks) data =
     (if list_all (\<lambda>k. score_ok (map_of data k)) ks
      then Inr (map (\<lambda>k. (k, the (map_of data k))) ks)
      else Inl ZodError)"
  by (induction ks)
    (auto simp: parse_score_eq score_ok_def simp del: parse.simps
      split: option.splits json.splits)

lemma parse_emotions_eq:
  "parse (ZObject (map (\<lambda>k. (k, ZNumber [AtLeast 1, AtMost 5])) emotion_names)) v =
     (if scores_ok v then Inr (scores_of v) else Inl ZodError)"
proof (cases v)
  case (JObj data)
  then show ?thesis by (simp add: parse_scores_eq get_field_def scores_ok_def scores_of_def)
qed (simp_all add: get_field_def score_ok_def scores_ok_def emotion_names_def)

lemma parse_object3:
  "parse (ZObject [(k1, s1), (k2, s2), (k3, s3)]) (JObj data) =
     (case map_of data k1 of
        None \<Rightarrow> Inl ZodError
      | Some v1 \<Rightarrow>
          (case parse s1 v1 of
             Inl e \<Rightarrow> Inl e
           | Inr y1 \<Rightarrow>
               (case map_of data k2 of
                  None \<Rightarrow> Inl ZodError
                | Some v2 \<Rightarrow>
                    (case parse s2 v2 of
                       Inl e \<Rightarrow> Inl e
                     | Inr y2 \<Rightarrow>
                         (case map_of data k3 of
                            None \<Rightarrow> Inl ZodError
                          | Some v3 \<Rightarrow>
                              (case parse s3 v3 of
                                 Inl e \<Rightarrow> Inl e
                               | Inr y3 \<Rightarrow> Inr (JObj [(k1, y1), (k2, y2), (k3, y3)])))))))"
  by (simp split: option.splits sum.splits)

lemma parse_aiResponseSchema_eq:
  "parse aiResponseSchema v = (if conforms v then Inr (validated v) else Inl ZodError)"
proof (cases v)
  case (JObj data)
  show ?thesis
    unfolding aiResponseSchema_shape JObj conforms_def validated_def
    by (simp add: parse_object3 get_field_JObj parse_string_eq parse_premises_eq
        parse_emotions_eq del: parse.simps split: option.splits)
qed (auto simp: get_field_def aiResponseSchema_shape conforms_def)

section \<open>Facts about the brace span\<close>

lemma match_json_span_iff: "match_json_span s \<noteq> None \<longleftrightarrow> has_json_span s"
proof
  assume m: "match_json_span s \<noteq> None"
  let ?P = "\<lambda>c. c \<noteq> CHR ''{''"
  from m obtain brace rest where d: "dropWhile ?P s = brace # rest" and r: "CHR ''}'' \<in> set rest"
    by (auto simp: match_json_span_def split: list.splits if_splits)
  from d have "\<not> ?P (hd (dropWhile ?P s))"
    using hd_dropWhile [of ?P s] by simp
  with d have o: "brace = CHR ''{''" by simp
  from r obtain b c where rest: "rest = b @ CHR ''}'' # c"
    by (auto dest: split_list)
  have "s = takeWhile ?P s @ dropWhile ?P s" by simp
  with d o rest have "s = takeWhile ?P s @ [CHR ''{''] @ b @ [CHR ''}''] @ c" by simp
  then show "has_json_span s" unfolding has_json_span_def by blast
next
  assume "has_json_span s"
  then obtain a b c where s: "s = a @ [CHR ''{''] @ b @ [CHR ''}''] @ c"
    unfolding has_json_span_def by blast
  let ?P = "\<lambda>c. c \<noteq> CHR ''{''"
  let ?r = "b @ CHR ''}'' # c"
  show "match_json_span s \<noteq> None"
  proof (cases "\<exists>y\<in>set a. \<not> ?P y")
    case True
    then have "dropWhile ?P s = dropWhile ?P a @ CHR ''{'' # ?r"
      unfolding s by (simp add: dropWhile_append1)
    moreover from True have "dropWhile ?P a \<noteq> []" by (simp add: dropWhile_eq_Nil_conv)
    ultimately obtain h t where "dropWhile ?P s = h # t @ CHR ''{'' # ?r"
      by (cases "dropWhile ?P a") auto
    then show ?thesis by (simp add: match_json_span_def)
  next
    case False
    then have "\<And>x. x \<in> set a \<Longrightarrow> ?P x" by blast
    then have "dropWhile ?P (a @ CHR ''{'' # ?r) = dropWhile ?P (CHR ''{'' # ?r)"
      by (rule dropWhile_append2)
    then have "dropWhile ?P s = CHR ''{'' # ?r"
      unfolding s by simp
    then show ?thesis by (simp add: match_json_span_def)
  qed
qed

section \<open>Facts about the provider paths\<close>

lemma truthy_Some: "truthy v = Some s \<longleftrightarrow> v = Some s \<and> s \<noteq> []"
  by (auto simp: truthy_def split: option.splits)

lemma openai_parsed_outcome:
  assumes "openai_parsed w text v"
  shows "snd (analyzeWithOpenAI w text) =
    (if conforms v then Inr (validated v)
     else Inl (Error ''Invalid response format from OpenAI. Please try again.''))"
proof -
  from assms obtain apiKey response content where
    "truthy (env w ''OPENAI_API_KEY'') = Some apiKey"
    "openai_create w apiKey (openai_params text) = Inr response"
    "openai_content response = Inr (Some content)" "content \<noteq> []"
    "JSON_parse content = Inr v"
    unfolding openai_parsed_def by blast
  then show ?thesis
    by (simp add: analyzeWithOpenAI_def truthy_def parse_aiResponseSchema_eq)
qed

lemma deepseek_parsed_outcome:
  assumes "deepseek_parsed w text v"
  shows "snd (analyzeWithDeepseek w text) =
    (if conforms v then Inr (validated v)
     else Inl (Error ''Invalid response format from DeepSeek. Please try again.''))"
proof -
  from assms obtain apiKey response responseData content where
    "truthy (env w ''DEEPSEEK_API_KEY'') = Some apiKey"
    "fetch w deepseek_url (deepseek_init apiKey text) = Inr response"
    "ok response" "json response = Inr responseData"
    "deepseek_content responseData = Some content" "content \<noteq> []"
    "JSON_parse content = Inr v"
    unfolding deepseek_parsed_def by blast
  then show ?thesis
    by (simp add: analyzeWithDeepseek_def truthy_def parse_aiResponseSchema_eq)
qed

lemma gemini_parsed_outcome:
  assumes "gemini_parsed w text v"
  shows "snd (analyzeWithGemini w text) =
    (if conforms v then Inr (validated v)
     else Inl (Error ''Invalid response format from Gemini. Please try again.''))"
proof -
  from assms obtain apiKey response responseData content jsonMatch where
    "truthy (env w ''GEMINI_API_KEY'') = Some apiKey"
    "fetch w (gemini_url apiKey) (gemini_init text) = Inr response"
    "ok response" "json response = Inr responseData"
    "gemini_content responseData = Some content" "content \<noteq> []"
    "match_json_span content = Some jsonMatch"
    "JSON_parse jsonMatch = Inr v"
    unfolding gemini_parsed_def by blast
  then show ?thesis
    by (simp add: analyzeWithGemini_def truthy_def parse_aiResponseSchema_eq)
qed

lemma parsed_reply_outcome:
  assumes "parsed_reply w text model v"
  shows "snd (analyzeArgumentWithAI w text model) =
    (if conforms v then Inr (validated v) else Inl (invalid_format model))"
  using assms
  unfolding parsed_reply_def analyzeArgumentWithAI_def invalid_format_def provider_name_def
  by (auto simp: openai_parsed_outcome deepseek_parsed_outcome gemini_parsed_outcome)

lemma openai_success:
  assumes "snd (analyzeWithOpenAI w text) = Inr r"
  shows "\<exists>v. openai_parsed w text v \<and> parse aiResponseSchema v = Inr r"
  using assms
  unfolding analyzeWithOpenAI_def openai_parsed_def
  by (auto simp: Let_def truthy_Some split: option.splits sum.splits if_splits)

lemma deepseek_success:
  assumes "snd (analyzeWithDeepseek w text) = Inr r"
  shows "\<exists>v. deepseek_parsed w text v \<and> parse aiResponseSchema v = Inr r"
  using assms
  unfolding analyzeWithDeepseek_def deepseek_parsed_def
  by (auto simp: Let_def truthy_Some split: option.splits sum.splits if_splits)

lemma gemini_success:
  assumes "snd (analyzeWithGemini w text) = Inr r"
  shows "\<exists>v. gemini_parsed w text v \<and> parse aiResponseSchema v = Inr r"
  using assms
  unfolding analyzeWithGemini_def gemini_parsed_def
  by (auto simp: Let_def truthy_Some split: option.splits sum.splits if_splits)

lemma analysis_success:
  assumes "snd (analyzeArgumentWithAI w text model) = Inr r"
  shows "\<exists>v. parsed_reply w text model v \<and> conforms v \<and> r = validated v"
proof -
  from assms have "\<exists>v. parsed_reply w text model v \<and> parse aiResponseSchema v = Inr r"
    unfolding analyzeArgumentWithAI_def parsed_reply_def
    by (auto dest: openai_success deepseek_success gemini_success split: if_splits)
  then show ?thesis
    by (auto simp: parse_aiResponseSchema_eq split: if_splits)
qed

section \<open>Facts about the example replies\<close>

lemma stub_world_openai_parsed:
  "s \<noteq> [] \<Longrightarrow> JSON_parse s = Inr v \<Longrightarrow> openai_parsed (stub_world s) text v"
  by (auto simp: openai_parsed_def stub_world_def stub_body_def truthy_def openai_content_def
      first_def)

lemma stub_world_deepseek_parsed:
  "s \<noteq> [] \<Longrightarrow> JSON_parse s = Inr v \<Longrightarrow> deepseek_parsed (stub_world s) text v"
  by (auto simp: deepseek_parsed_def stub_world_def stub_body_def truthy_def
      deepseek_content_def first_def)

lemma stub_world_gemini_parsed:
  "s \<noteq> [] \<Longrightarrow> match_json_span s = Some m \<Longrightarrow> JSON_parse m = Inr v \<Longrightarrow>
     gemini_parsed (stub_world s) text v"
  by (auto simp: gemini_parsed_def stub_world_def stub_body_def truthy_def
      gemini_content_def first_def)

lemma scenario_reply_parse: "JSON_parse scenario_reply = Inr scenario_object"
  unfolding scenario_reply_def scenario_object_def by code_simp

lemma scenario_reply_span: "match_json_span scenario_reply = Some scenario_reply"
  unfolding scenario_reply_def by code_simp

lemma scenario_reply_nonempty: "scenario_reply \<noteq> []"
  unfolding scenario_reply_def by simp

lemma reply_text_with_joy_0: "JSON_parse (reply_text_with_joy ''0'') = Inr (reply_with_joy (JNum 0))"
  unfolding reply_text_with_joy_def reply_with_joy_def by code_simp

lemma reply_text_with_joy_nonempty: "reply_text_with_joy s \<noteq> []"
  unfolding reply_text_with_joy_def by simp

lemma get_field_reply_with_joy:
  "get_field (reply_with_joy x) ''emotions'' = Some (JObj
     [(''Anger'', JNum 1), (''Sadness'', JNum 1), (''Joy'', x), (''Fear'', JNum 1),
      (''Surprise'', JNum 1)])"
  by (simp add: reply_with_joy_def get_field_def)

section \<open>The claims\<close>

text \<open>
  C1. Schema validation rejects a parsed reply whenever one of the five emotion scores
  is 0, is 6, or is not a number, and the call then fails with the provider's
  "Invalid response format" error. It accepts every object whose \<open>claim\<close> is a string,
  whose \<open>premises\<close> is an array of strings and whose \<open>emotions\<close> carries the five
  names with numbers from 1 to 5; the result holds the claim, the premises and an
  emotions object with exactly the five keys, each value from 1 to 5.
\<close>

theorem schema_validation:
  "(get_field v ''emotions'' = Some em \<and> k \<in> set emotion_names \<and> get_field em k = Some x \<and>
      (x = JNum 0 \<or> x = JNum 6 \<or> \<not> is_number x)
    \<longrightarrow> parse aiResponseSchema v = Inl ZodError \<and>
        (\<forall>w text model. parsed_reply w text model v \<longrightarrow>
           snd (analyzeArgumentWithAI w text model) = Inl (invalid_format model)))
   \<and>
   (get_field v' ''claim'' = Some (JStr c) \<and>
    get_field v' ''premises'' = Some (JArr ps) \<and> list_all is_string ps \<and>
    get_field v' ''emotions'' = Some em' \<and>
    (\<forall>k\<in>set emotion_names. \<exists>y. get_field em' k = Some (JNum y) \<and> 1 \<le> y \<and> y \<le> 5)
    \<longrightarrow> (\<exists>scores.
          parse aiResponseSchema v' =
            Inr (JObj [(''claim'', JStr c), (''premises'', JArr ps), (''emotions'', scores)]) \<and>
          object_keys scores = emotion_names \<and>
          (\<forall>k\<in>set emotion_names. \<exists>y. get_field scores k = Some (JNum y) \<and> 1 \<le> y \<and> y \<le> 5)))"
proof (intro conjI impI)
  assume bad: "get_field v ''emotions'' = Some em \<and> k \<in> set emotion_names \<and>
    get_field em k = Some x \<and> (x = JNum 0 \<or> x = JNum 6 \<or> \<not> is_number x)"
  then have k: "k \<in> set emotion_names" and "\<not> score_ok (get_field em k)"
    by (auto simp: score_ok_def is_number_def split: json.splits)
  then have "\<not> scores_ok em"
    unfolding scores_ok_def list_all_iff by blast
  with bad have no: "\<not> conforms v"
    by (simp add: conforms_def)
  then show "parse aiResponseSchema v = Inl ZodError"
    by (simp add: parse_aiResponseSchema_eq)
  from no show "\<forall>w text model. parsed_reply w text model v \<longrightarrow>
      snd (analyzeArgumentWithAI w text model) = Inl (invalid_format model)"
    by (simp add: parsed_reply_outcome)
next
  assume good: "get_field v' ''claim'' = Some (JStr c) \<and>
    get_field v' ''premises'' = Some (JArr ps) \<and> list_all is_string ps \<and>
    get_field v' ''emotions'' = Some em' \<and>
    (\<forall>k\<in>set emotion_names. \<exists>y. get_field em' k = Some (JNum y) \<and> 1 \<le> y \<and> y \<le> 5)"
  then have ok: "scores_ok em'"
    by (auto simp: scores_ok_def score_ok_def list_all_iff)
  with good have "conforms v'"
    by (simp add: conforms_def is_string_def is_string_array_def)
  with good have "parse aiResponseSchema v' =
      Inr (JObj [(''claim'', JStr c), (''premises'', JArr ps), (''emotions'', scores_of em')])"
    by (simp add: parse_aiResponseSchema_eq validated_def)
  moreover have "object_keys (scores_of em') = emotion_names"
    by (simp add: object_keys_def scores_of_def comp_def)
  moreover have "\<forall>k\<in>set emotion_names.
      \<exists>y. get_field (scores_of em') k = Some (JNum y) \<and> 1 \<le> y \<and> y \<le> 5"
  proof
    fix k assume k: "k \<in> set emotion_names"
    with good obtain y where "get_field em' k = Some (JNum y)" "1 \<le> y" "y \<le> 5" by blast
    moreover from k have "get_field (scores_of em') k = Some (the (get_field em' k))"
      by (auto simp: scores_of_def get_field_def emotion_names_def)
    ultimately show "\<exists>y. get_field (scores_of em') k = Some (JNum y) \<and> 1 \<le> y \<and> y \<le> 5"
      by simp
  qed
  ultimately show "\<exists>scores.
      parse aiResponseSchema v' =
        Inr (JObj [(''claim'', JStr c), (''premises'', JArr ps), (''emotions'', scores)]) \<and>
      object_keys scores = emotion_names \<and>
      (\<forall>k\<in>set emotion_names. \<exists>y. get_field scores k = Some (JNum y) \<and> 1 \<le> y \<and> y \<le> 5)"
    by blast
qed

theorem schema_validation_witness:
  "parse aiResponseSchema (reply_with_joy (JNum 0)) = Inl ZodError \<and>
   parse aiResponseSchema (reply_with_joy (JNum 6)) = Inl ZodError \<and>
   parse aiResponseSchema (reply_with_joy (JStr ''high'')) = Inl ZodError \<and>
   snd (analyzeArgumentWithAI (stub_world (reply_text_with_joy ''0'')) scenario_text ''openai'') =
     Inl (Error ''Invalid response format from OpenAI. Please try again.'') \<and>
   (\<exists>scores.
      parse aiResponseSchema scenario_object =
        Inr (JObj [(''claim'', JStr ''The ocean is blue''),
                   (''premises'', JArr [JStr ''The sky is blue'']),
                   (''emotions'', scores)]) \<and>
      object_keys scores = emotion_names)"
proof -
  let ?em = "\<lambda>x. JObj [(''Anger'', JNum 1), (''Sadness'', JNum 1), (''Joy'', x),
    (''Fear'', JNum 1), (''Surprise'', JNum 1)]"
  have joy: "''Joy'' \<in> set emotion_names" "\<And>x. get_field (?em x) ''Joy'' = Some x"
    by (simp_all add: emotion_names_def get_field_def)
  have good: "get_field scenario_object ''claim'' = Some (JStr ''The ocean is blue'')"
    "get_field scenario_object ''premises'' = Some (JArr [JStr ''The sky is blue''])"
    "list_all is_string [JStr ''The sky is blue'']"
    "get_field scenario_object ''emotions'' = Some (?em (JNum 2))"
    "\<forall>k\<in>set emotion_names. \<exists>y. get_field (?em (JNum 2)) k = Some (JNum y) \<and> 1 \<le> y \<and> y \<le> 5"
    by (simp_all add: scenario_object_def get_field_def is_string_def emotion_names_def)
  have reached: "parsed_reply (stub_world (reply_text_with_joy ''0'')) scenario_text ''openai''
      (reply_with_joy (JNum 0))"
    unfolding parsed_reply_def
    using stub_world_openai_parsed [OF reply_text_with_joy_nonempty reply_text_with_joy_0]
    by simp
  note at = schema_validation [where v' = scenario_object and c = "''The ocean is blue''"
      and ps = "[JStr ''The sky is blue'']" and em' = "?em (JNum 2)" and k = "''Joy''"]
  from at [of "reply_with_joy (JNum 0)" "?em (JNum 0)" "JNum 0"]
  have zero: "parse aiResponseSchema (reply_with_joy (JNum 0)) = Inl ZodError"
    and call: "snd (analyzeArgumentWithAI (stub_world (reply_text_with_joy ''0'')) scenario_text
      ''openai'') = Inl (invalid_format ''openai'')"
    and accepted: "\<exists>scores.
      parse aiResponseSchema scenario_object =
        Inr (JObj [(''claim'', JStr ''The ocean is blue''),
                   (''premises'', JArr [JStr ''The sky is blue'']),
                   (''emotions'', scores)]) \<and>
      object_keys scores = emotion_names"
    using joy good reached get_field_reply_with_joy by auto
  from at [of "reply_with_joy (JNum 6)" "?em (JNum 6)" "JNum 6"]
  have six: "parse aiResponseSchema (reply_with_joy (JNum 6)) = Inl ZodError"
    using joy get_field_reply_with_joy by simp
  from at [of "reply_with_joy (JStr ''high'')" "?em (JStr ''high'')" "JStr ''high''"]
  have str: "parse aiResponseSchema (reply_with_joy (JStr ''high'')) = Inl ZodError"
    using joy get_field_reply_with_joy by (simp add: is_number_def)
  from zero six str call accepted show ?thesis
    by (simp add: invalid_format_def provider_name_def)
qed

lemma map_of_filter_keys:
  "k \<in> S \<Longrightarrow> map_of (filter (\<lambda>(k, y). k \<in> S) em) k = map_of em k"
  by (induction em) auto

lemma map_of_map_values:
  "map_of (map (\<lambda>(key, x). (key, f key x)) data) k = map_option (f k) (map_of data k)"
  by (induction data) auto

lemma scores_ok_filter:
  "scores_ok (JObj (filter (\<lambda>(k, y). k \<in> set emotion_names) em)) = scores_ok (JObj em)"
  by (simp add: scores_ok_def get_field_def list_all_iff map_of_filter_keys)

lemma scores_of_filter:
  "scores_of (JObj (filter (\<lambda>(k, y). k \<in> set emotion_names) em)) = scores_of (JObj em)"
  by (simp add: scores_of_def get_field_def map_of_filter_keys)

lemma get_field_without_extra_emotions:
  "get_field (without_extra_emotions v) ''claim'' = get_field v ''claim''"
  "get_field (without_extra_emotions v) ''premises'' = get_field v ''premises''"
  "get_field (without_extra_emotions v) ''emotions'' =
     map_option (\<lambda>x. case x of
                       JObj em \<Rightarrow> JObj (filter (\<lambda>(k, y). k \<in> set emotion_names) em)
                     | _ \<Rightarrow> x)
       (get_field v ''emotions'')"
  by (cases v; simp add: without_extra_emotions_def get_field_def map_of_map_values
      option.map_ident)+

lemma conforms_without_extra_emotions:
  "conforms (without_extra_emotions v) = conforms v"
  by (auto simp: conforms_def get_field_without_extra_emotions scores_ok_filter
      split: option.splits json.splits)

lemma validated_without_extra_emotions:
  "conforms v \<Longrightarrow> validated (without_extra_emotions v) = validated v"
  by (auto simp: conforms_def validated_def get_field_without_extra_emotions scores_of_filter
      split: option.splits json.splits)

lemma object_keys_scores_of: "object_keys (scores_of em) = emotion_names"
  by (simp add: object_keys_def scores_of_def comp_def)

lemma get_field_validated:
  "get_field (validated v) ''emotions'' = Some (scores_of (the (get_field v ''emotions'')))"
  by (simp add: validated_def get_field_def)

lemma object_keys_validated: "object_keys (validated v) = [''claim'', ''premises'', ''emotions'']"
  by (simp add: validated_def object_keys_def)

lemma reply_text_with_extra_emotion_parse:
  "JSON_parse reply_text_with_extra_emotion = Inr reply_with_extra_emotion"
  unfolding reply_text_with_extra_emotion_def reply_with_extra_emotion_def by code_simp

lemma reply_text_with_extra_emotion_nonempty: "reply_text_with_extra_emotion \<noteq> []"
  unfolding reply_text_with_extra_emotion_def by simp

lemma conforms_scenario_object: "conforms scenario_object"
  by (simp add: conforms_def scenario_object_def get_field_def is_string_def is_string_array_def
      scores_ok_def score_ok_def emotion_names_def)

lemma validated_scenario_object: "validated scenario_object = scenario_object"
  by (simp add: validated_def scenario_object_def get_field_def scores_of_def emotion_names_def)

lemma conforms_reply_with_extra_emotion: "conforms reply_with_extra_emotion"
  by (simp add: conforms_def reply_with_extra_emotion_def get_field_def is_string_def
      is_string_array_def scores_ok_def score_ok_def emotion_names_def)

lemma validated_reply_with_extra_emotion: "validated reply_with_extra_emotion = scenario_object"
  by (simp add: validated_def reply_with_extra_emotion_def scenario_object_def get_field_def
      scores_of_def emotion_names_def)

text \<open>
  C2, as stated, fails: the object of the scenario with a sixth emotion key,
  \<open>Disgust\<close>, passes validation, and the call returns the result without that key.
\<close>

theorem extra_emotion_key_counterexample:
  "get_field reply_with_extra_emotion ''emotions'' = Some (JObj
     [(''Anger'', JNum 1), (''Sadness'', JNum 1), (''Joy'', JNum 2),
      (''Fear'', JNum 1), (''Surprise'', JNum 1), (''Disgust'', JNum 3)]) \<and>
   parse aiResponseSchema reply_with_extra_emotion = Inr scenario_object \<and>
   snd (analyzeArgumentWithAI (stub_world reply_text_with_extra_emotion) scenario_text ''openai'') =
     Inr scenario_object"
proof -
  have "parsed_reply (stub_world reply_text_with_extra_emotion) scenario_text ''openai''
      reply_with_extra_emotion"
    unfolding parsed_reply_def
    using stub_world_openai_parsed
      [OF reply_text_with_extra_emotion_nonempty reply_text_with_extra_emotion_parse]
    by simp
  then show ?thesis
    by (simp add: parsed_reply_outcome parse_aiResponseSchema_eq conforms_reply_with_extra_emotion
        validated_reply_with_extra_emotion)
      (simp add: reply_with_extra_emotion_def get_field_def)
qed

text \<open>
  C2, amended. Keys of the \<open>emotions\<close> object besides the five required names are
  ignored and dropped: validation gives the same outcome as for the object without
  them, and the \<open>emotions\<close> object of a validated result has exactly the five keys.
\<close>

theorem extra_emotion_keys_stripped:
  "parse aiResponseSchema v = parse aiResponseSchema (without_extra_emotions v) \<and>
   (\<forall>r. parse aiResponseSchema v = Inr r \<longrightarrow>
      (\<exists>scores. get_field r ''emotions'' = Some scores \<and> object_keys scores = emotion_names))"
  by (auto simp: parse_aiResponseSchema_eq conforms_without_extra_emotions
      validated_without_extra_emotions get_field_validated object_keys_scores_of)

theorem extra_emotion_keys_stripped_witness:
  "without_extra_emotions reply_with_extra_emotion = scenario_object \<and>
   parse aiResponseSchema reply_with_extra_emotion = parse aiResponseSchema scenario_object \<and>
   (\<exists>scores. get_field scenario_object ''emotions'' = Some scores \<and>
      object_keys scores = emotion_names)"
proof -
  have same: "without_extra_emotions reply_with_extra_emotion = scenario_object"
    by (simp add: without_extra_emotions_def reply_with_extra_emotion_def scenario_object_def
        emotion_names_def)
  have accepted: "parse aiResponseSchema reply_with_extra_emotion = Inr scenario_object"
    by (simp add: parse_aiResponseSchema_eq conforms_reply_with_extra_emotion
        validated_reply_with_extra_emotion)
  from extra_emotion_keys_stripped [of reply_with_extra_emotion] same accepted
  show ?thesis by simp
qed

lemma reply_text_with_joy_fraction:
  "JSON_parse (reply_text_with_joy ''2.5'') = Inr (reply_with_joy (JNum (5 / 2)))"
  unfolding reply_text_with_joy_def reply_with_joy_def by code_simp

lemma conforms_reply_with_joy:
  "conforms (reply_with_joy (JNum y)) \<longleftrightarrow> 1 \<le> y \<and> y \<le> 5"
  by (simp add: conforms_def reply_with_joy_def get_field_def is_string_def is_string_array_def
      scores_ok_def score_ok_def emotion_names_def)

lemma validated_reply_with_joy: "validated (reply_with_joy x) = reply_with_joy x"
  by (simp add: validated_def reply_with_joy_def get_field_def scores_of_def emotion_names_def)

lemma scores_of_in_range:
  assumes "scores_ok em" and "k \<in> set emotion_names"
  shows "\<exists>y. get_field (scores_of em) k = Some (JNum y) \<and> 1 \<le> y \<and> y \<le> 5"
proof -
  from assms have "score_ok (get_field em k)"
    by (simp add: scores_ok_def list_all_iff)
  then obtain y where "get_field em k = Some (JNum y)" "1 \<le> y" "y \<le> 5"
    by (auto simp: score_ok_def split: option.splits json.splits)
  moreover from assms(2) have "get_field (scores_of em) k = Some (the (get_field em k))"
    by (auto simp: scores_of_def get_field_def emotion_names_def)
  ultimately show ?thesis by simp
qed

text \<open>
  C3, as stated, fails: when the completion text of the scenario carries 2.5 as the
  score for Joy, the call succeeds and returns that score, which is not an integer.
\<close>

theorem fractional_score_counterexample:
  "snd (analyzeArgumentWithAI (stub_world (reply_text_with_joy ''2.5'')) scenario_text ''openai'') =
     Inr (reply_with_joy (JNum (5 / 2))) \<and>
   get_field (scores_of (the (get_field (reply_with_joy (JNum (5 / 2))) ''emotions''))) ''Joy'' =
     Some (JNum (5 / 2)) \<and>
   \<not> is_integer (5 / 2)"
proof -
  have "parsed_reply (stub_world (reply_text_with_joy ''2.5'')) scenario_text ''openai''
      (reply_with_joy (JNum (5 / 2)))"
    unfolding parsed_reply_def
    using stub_world_openai_parsed [OF reply_text_with_joy_nonempty reply_text_with_joy_fraction]
    by simp
  then have "snd (analyzeArgumentWithAI (stub_world (reply_text_with_joy ''2.5'')) scenario_text
      ''openai'') = Inr (reply_with_joy (JNum (5 / 2)))"
    by (simp add: parsed_reply_outcome conforms_reply_with_joy validated_reply_with_joy)
  moreover have "get_field (scores_of (the (get_field (reply_with_joy (JNum (5 / 2)))
      ''emotions''))) ''Joy'' = Some (JNum (5 / 2))"
    by (simp add: reply_with_joy_def get_field_def scores_of_def emotion_names_def)
  moreover have "\<lfloor>5 / 2 :: rat\<rfloor> = 2"
    by (simp add: floor_eq_iff)
  then have "\<not> is_integer (5 / 2)"
    by (simp add: is_integer_def)
  ultimately show ?thesis by simp
qed

text \<open>
  C3, amended. In every result of a successful analysis call, the \<open>emotions\<close> object
  has exactly the five keys and each score is a number from 1 to 5, not necessarily
  an integer: every number from 1 to 5 is accepted as a score.
\<close>

theorem scores_in_range:
  "(snd (analyzeArgumentWithAI w text model) = Inr r \<longrightarrow>
      (\<exists>scores. get_field r ''emotions'' = Some scores \<and> object_keys scores = emotion_names \<and>
         (\<forall>k\<in>set emotion_names. \<exists>y. get_field scores k = Some (JNum y) \<and> 1 \<le> y \<and> y \<le> 5))) \<and>
   (1 \<le> y \<and> y \<le> 5 \<longrightarrow>
      parse aiResponseSchema (reply_with_joy (JNum y)) = Inr (reply_with_joy (JNum y)))"
proof (intro conjI impI)
  assume "snd (analyzeArgumentWithAI w text model) = Inr r"
  then obtain v where v: "conforms v" "r = validated v"
    by (auto dest: analysis_success)
  then obtain em where em: "get_field v ''emotions'' = Some em" "scores_ok em"
    by (auto simp: conforms_def split: option.splits)
  then have "get_field r ''emotions'' = Some (scores_of em)"
    by (simp add: v get_field_validated)
  with em scores_of_in_range object_keys_scores_of
  show "\<exists>scores. get_field r ''emotions'' = Some scores \<and> object_keys scores = emotion_names \<and>
      (\<forall>k\<in>set emotion_names. \<exists>y. get_field scores k = Some (JNum y) \<and> 1 \<le> y \<and> y \<le> 5)"
    by blast
next
  assume "1 \<le> y \<and> y \<le> 5"
  then show "parse aiResponseSchema (reply_with_joy (JNum y)) = Inr (reply_with_joy (JNum y))"
    by (simp add: parse_aiResponseSchema_eq conforms_reply_with_joy validated_reply_with_joy)
qed

theorem scores_in_range_witness:
  "snd (analyzeArgumentWithAI (stub_world scenario_reply) scenario_text ''openai'') =
     Inr scenario_object \<and>
   (\<exists>scores. get_field scenario_object ''emotions'' = Some scores \<and>
      object_keys scores = emotion_names \<and>
      (\<forall>k\<in>set emotion_names. \<exists>y. get_field scores k = Some (JNum y) \<and> 1 \<le> y \<and> y \<le> 5)) \<and>
   parse aiResponseSchema (reply_with_joy (JNum (5 / 2))) = Inr (reply_with_joy (JNum (5 / 2)))"
proof -
  have "parsed_reply (stub_world scenario_reply) scenario_text ''openai'' scenario_object"
    unfolding parsed_reply_def
    using stub_world_openai_parsed [OF scenario_reply_nonempty scenario_reply_parse]
    by simp
  then have call: "snd (analyzeArgumentWithAI (stub_world scenario_reply) scenario_text ''openai'') =
      Inr scenario_object"
    by (simp add: parsed_reply_outcome conforms_scenario_object validated_scenario_object)
  from scores_in_range [of "stub_world scenario_reply" scenario_text "''openai''" scenario_object
      "5 / 2"] call
  show ?thesis by simp
qed

lemma conforms_cong:
  assumes "\<forall>k\<in>set [''claim'', ''premises'', ''emotions'']. get_field v' k = get_field v k"
  shows "conforms v' = conforms v" and "validated v' = validated v"
  using assms by (simp_all add: conforms_def validated_def)

text \<open>
  C10. Properties of the reply object other than \<open>claim\<close>, \<open>premises\<close> and
  \<open>emotions\<close> play no part in validation and are dropped: when an object validates to
  \<open>r\<close>, every object \<open>v'\<close> with the same three fields (and any other properties)
  validates to \<open>r\<close> as well, \<open>r\<close> has exactly the three keys, and a call whose reply
  parses to \<open>v'\<close> returns \<open>r\<close>.
\<close>

theorem extra_properties_dropped:
  assumes "parse aiResponseSchema v = Inr r"
    and "\<forall>k\<in>set [''claim'', ''premises'', ''emotions'']. get_field v' k = get_field v k"
  shows "parse aiResponseSchema v' = Inr r \<and>
    object_keys r = [''claim'', ''premises'', ''emotions''] \<and>
    (\<forall>w text model. parsed_reply w text model v' \<longrightarrow>
       snd (analyzeArgumentWithAI w text model) = Inr r)"
proof -
  from assms(1) have v: "conforms v" "r = validated v"
    by (auto simp: parse_aiResponseSchema_eq split: if_splits)
  with conforms_cong [OF assms(2)] have v': "conforms v'" "validated v' = r"
    by simp_all
  moreover from v' have "object_keys r = [''claim'', ''premises'', ''emotions'']"
    using object_keys_validated [of v'] by simp
  ultimately show ?thesis
    by (simp add: parse_aiResponseSchema_eq parsed_reply_outcome)
qed

lemma reply_text_with_extra_properties_parse:
  "JSON_parse reply_text_with_extra_properties = Inr reply_with_extra_properties"
  unfolding reply_text_with_extra_properties_def reply_with_extra_properties_def by code_simp

lemma reply_text_with_extra_properties_nonempty: "reply_text_with_extra_properties \<noteq> []"
  unfolding reply_text_with_extra_properties_def by simp

theorem extra_properties_dropped_witness:
  "parse aiResponseSchema reply_with_extra_properties = Inr scenario_object \<and>
   object_keys scenario_object = [''claim'', ''premises'', ''emotions''] \<and>
   object_keys reply_with_extra_properties =
     [''model'', ''claim'', ''premises'', ''emotions'', ''confidence''] \<and>
   snd (analyzeArgumentWithAI (stub_world reply_text_with_extra_properties) scenario_text
     ''openai'') = Inr scenario_object"
proof -
  have valid: "parse aiResponseSchema scenario_object = Inr scenario_object"
    by (simp add: parse_aiResponseSchema_eq conforms_scenario_object validated_scenario_object)
  have same: "\<forall>k\<in>set [''claim'', ''premises'', ''emotions''].
      get_field reply_with_extra_properties k = get_field scenario_object k"
    by (simp add: reply_with_extra_properties_def scenario_object_def get_field_def)
  have reached: "parsed_reply (stub_world reply_text_with_extra_properties) scenario_text
      ''openai'' reply_with_extra_properties"
    unfolding parsed_reply_def
    using stub_world_openai_parsed
      [OF reply_text_with_extra_properties_nonempty reply_text_with_extra_properties_parse]
    by simp
  have keys: "object_keys reply_with_extra_properties =
      [''model'', ''claim'', ''premises'', ''emotions'', ''confidence'']"
    by (simp add: reply_with_extra_properties_def object_keys_def)
  from extra_properties_dropped [OF valid same] reached keys
  show ?thesis by simp
qed

text \<open>
  C4. For each provider, when its credential is absent from the environment (or is
  the empty string), the call issues no network call and fails with the message that
  names that provider's key.
\<close>

theorem missing_credential_fails_first:
  "(truthy (env w ''OPENAI_API_KEY'') = None \<longrightarrow>
      analyzeArgumentWithAI w text ''openai'' =
        ([], Inl (Error ''OpenAI API key is missing. Please add it to your Replit Secrets.''))) \<and>
   (truthy (env w ''DEEPSEEK_API_KEY'') = None \<longrightarrow>
      analyzeArgumentWithAI w text ''deepseek'' =
        ([], Inl (Error ''DeepSeek API key is missing. Please add it to your Replit Secrets.''))) \<and>
   (truthy (env w ''GEMINI_API_KEY'') = None \<longrightarrow>
      analyzeArgumentWithAI w text ''gemini'' =
        ([], Inl (Error ''Gemini API key is missing. Please add it to your Replit Secrets.'')))"
  by (simp add: analyzeArgumentWithAI_def analyzeWithOpenAI_def analyzeWithDeepseek_def
      analyzeWithGemini_def)

theorem missing_credential_fails_first_witness:
  "env (no_credentials scenario_reply) ''OPENAI_API_KEY'' = None \<and>
   analyzeArgumentWithAI (no_credentials scenario_reply) scenario_text ''openai'' =
     ([], Inl (Error ''OpenAI API key is missing. Please add it to your Replit Secrets.'')) \<and>
   analyzeArgumentWithAI (no_credentials scenario_reply) scenario_text ''deepseek'' =
     ([], Inl (Error ''DeepSeek API key is missing. Please add it to your Replit Secrets.'')) \<and>
   analyzeArgumentWithAI (no_credentials scenario_reply) scenario_text ''gemini'' =
     ([], Inl (Error ''Gemini API key is missing. Please add it to your Replit Secrets.''))"
  using missing_credential_fails_first [of "no_credentials scenario_reply" scenario_text]
  by (simp add: no_credentials_def truthy_def)

text \<open>
  C9. A provider's path reads no credential but its own: two worlds with the same
  network and the same value of that provider's credential give the same calls and the
  same outcome, whatever the other credentials are.
\<close>

theorem other_credentials_ignored:
  assumes "openai_create w' = openai_create w" and "fetch w' = fetch w"
  shows
    "(env w' ''OPENAI_API_KEY'' = env w ''OPENAI_API_KEY'' \<longrightarrow>
        analyzeArgumentWithAI w' text ''openai'' = analyzeArgumentWithAI w text ''openai'') \<and>
     (env w' ''DEEPSEEK_API_KEY'' = env w ''DEEPSEEK_API_KEY'' \<longrightarrow>
        analyzeArgumentWithAI w' text ''deepseek'' = analyzeArgumentWithAI w text ''deepseek'') \<and>
     (env w' ''GEMINI_API_KEY'' = env w ''GEMINI_API_KEY'' \<longrightarrow>
        analyzeArgumentWithAI w' text ''gemini'' = analyzeArgumentWithAI w text ''gemini'')"
proof (intro conjI impI)
  assume "env w' ''OPENAI_API_KEY'' = env w ''OPENAI_API_KEY''"
  then show "analyzeArgumentWithAI w' text ''openai'' = analyzeArgumentWithAI w text ''openai''"
    by (simp add: analyzeArgumentWithAI_def analyzeWithOpenAI_def assms(1) split: option.splits)
next
  assume "env w' ''DEEPSEEK_API_KEY'' = env w ''DEEPSEEK_API_KEY''"
  then show "analyzeArgumentWithAI w' text ''deepseek'' = analyzeArgumentWithAI w text ''deepseek''"
    by (simp add: analyzeArgumentWithAI_def analyzeWithDeepseek_def assms(2) split: option.splits)
next
  assume "env w' ''GEMINI_API_KEY'' = env w ''GEMINI_API_KEY''"
  then show "analyzeArgumentWithAI w' text ''gemini'' = analyzeArgumentWithAI w text ''gemini''"
    by (simp add: analyzeArgumentWithAI_def analyzeWithGemini_def assms(2) split: option.splits)
qed

theorem other_credentials_ignored_witness:
  "env (only_openai_credential scenario_reply) ''GEMINI_API_KEY'' \<noteq>
     env (stub_world scenario_reply) ''GEMINI_API_KEY'' \<and>
   env (only_openai_credential scenario_reply) ''DEEPSEEK_API_KEY'' \<noteq>
     env (stub_world scenario_reply) ''DEEPSEEK_API_KEY'' \<and>
   analyzeArgumentWithAI (only_openai_credential scenario_reply) scenario_text ''openai'' =
     analyzeArgumentWithAI (stub_world scenario_reply) scenario_text ''openai''"
proof -
  have "openai_create (only_openai_credential scenario_reply) =
      openai_create (stub_world scenario_reply)"
    and "fetch (only_openai_credential scenario_reply) = fetch (stub_world scenario_reply)"
    by (simp_all add: only_openai_credential_def)
  from other_credentials_ignored [OF this, of scenario_text]
  show ?thesis
    by (simp add: only_openai_credential_def stub_world_def)
qed

lemma no_span_hello: "\<not> has_json_span ''hello''"
proof -
  have "match_json_span ''hello'' = None" by code_simp
  then show ?thesis using match_json_span_iff [of "''hello''"] by simp
qed

lemma parse_hello: "JSON_parse ''hello'' = Inl SyntaxError"
  by code_simp

text \<open>
  C5, as stated, fails: the completion text \<open>hello\<close> contains no brace span, and the
  OpenAI and DeepSeek paths, which hand the text to \<^verbatim>\<open>JSON.parse\<close> as it is, fail on it
  with their "Failed to parse JSON response" error.
\<close>

theorem no_span_counterexample:
  "\<not> has_json_span ''hello'' \<and>
   snd (analyzeArgumentWithAI (stub_world ''hello'') scenario_text ''openai'') =
     Inl (Error ''Failed to parse JSON response from OpenAI. Please try again.'') \<and>
   snd (analyzeArgumentWithAI (stub_world ''hello'') scenario_text ''deepseek'') =
     Inl (Error ''Failed to parse JSON response from DeepSeek. Please try again.'')"
  using no_span_hello parse_hello
  by (simp add: analyzeArgumentWithAI_def analyzeWithOpenAI_def analyzeWithDeepseek_def
      stub_world_def stub_body_def truthy_def openai_content_def deepseek_content_def first_def)

text \<open>
  C5, amended. On the Gemini path, a reply whose completion text is not empty and
  contains no brace span makes the call fail with "Could not extract JSON from Gemini
  response".
\<close>

theorem gemini_no_span:
  assumes "truthy (env w ''GEMINI_API_KEY'') = Some apiKey"
    and "fetch w (gemini_url apiKey) (gemini_init text) = Inr response"
    and "ok response" and "json response = Inr responseData"
    and "gemini_content responseData = Some content" and "content \<noteq> []"
    and "\<not> has_json_span content"
  shows "analyzeWithGemini w text =
    ([FetchCall (gemini_url apiKey) (gemini_init text)],
     Inl (Error ''Could not extract JSON from Gemini response''))"
proof -
  from assms(7) have "match_json_span content = None"
    using match_json_span_iff [of content] by simp
  with assms(1-6) show ?thesis
    by (simp add: analyzeWithGemini_def truthy_def)
qed

theorem gemini_no_span_witness:
  "\<not> has_json_span ''hello'' \<and>
   analyzeWithGemini (stub_world ''hello'') scenario_text =
     ([FetchCall (gemini_url ''sk-gemini'') (gemini_init scenario_text)],
      Inl (Error ''Could not extract JSON from Gemini response''))"
proof -
  have "truthy (env (stub_world ''hello'') ''GEMINI_API_KEY'') = Some ''sk-gemini''"
    and "fetch (stub_world ''hello'') (gemini_url ''sk-gemini'') (gemini_init scenario_text) =
      Inr \<lparr>ok = True, statusText = ''OK'', json = Inr (stub_body ''hello'')\<rparr>"
    and "ok \<lparr>ok = True, statusText = ''OK'', json = Inr (stub_body ''hello'')\<rparr>"
    and "json \<lparr>ok = True, statusText = ''OK'', json = Inr (stub_body ''hello'')\<rparr> =
      Inr (stub_body ''hello'')"
    and "gemini_content (stub_body ''hello'') = Some ''hello''"
    and "''hello'' \<noteq> []"
    by (simp_all add: stub_world_def stub_body_def truthy_def gemini_content_def first_def)
  from gemini_no_span [OF this no_span_hello] no_span_hello
  show ?thesis by simp
qed

text \<open>
  C6. The three provider paths validate alike: when each of them has parsed its reply
  to the same value \<open>v\<close>, either the schema accepts \<open>v\<close> and all three return the
  same result, or it rejects \<open>v\<close> and each fails with its "Invalid response format"
  error.
\<close>

theorem providers_validate_alike:
  assumes "openai_parsed w1 text1 v" and "deepseek_parsed w2 text2 v"
    and "gemini_parsed w3 text3 v"
  shows
    "(\<exists>r. parse aiResponseSchema v = Inr r \<and>
        snd (analyzeWithOpenAI w1 text1) = Inr r \<and>
        snd (analyzeWithDeepseek w2 text2) = Inr r \<and>
        snd (analyzeWithGemini w3 text3) = Inr r) \<or>
     (parse aiResponseSchema v = Inl ZodError \<and>
        snd (analyzeWithOpenAI w1 text1) =
          Inl (Error ''Invalid response format from OpenAI. Please try again.'') \<and>
        snd (analyzeWithDeepseek w2 text2) =
          Inl (Error ''Invalid response format from DeepSeek. Please try again.'') \<and>
        snd (analyzeWithGemini w3 text3) =
          Inl (Error ''Invalid response format from Gemini. Please try again.''))"
  using assms
  by (simp add: openai_parsed_outcome deepseek_parsed_outcome gemini_parsed_outcome
      parse_aiResponseSchema_eq)

theorem providers_validate_alike_witness:
  "snd (analyzeWithOpenAI (stub_world scenario_reply) scenario_text) = Inr scenario_object \<and>
   snd (analyzeWithDeepseek (stub_world scenario_reply) scenario_text) = Inr scenario_object \<and>
   snd (analyzeWithGemini (stub_world scenario_reply) scenario_text) = Inr scenario_object"
proof -
  note parsed = scenario_reply_nonempty scenario_reply_parse
  have valid: "parse aiResponseSchema scenario_object = Inr scenario_object"
    by (simp add: parse_aiResponseSchema_eq conforms_scenario_object validated_scenario_object)
  from providers_validate_alike
    [OF stub_world_openai_parsed [OF parsed] stub_world_deepseek_parsed [OF parsed]
      stub_world_gemini_parsed [OF scenario_reply_nonempty scenario_reply_span scenario_reply_parse],
      of scenario_text scenario_text scenario_text]
    valid
  show ?thesis by simp
qed

text \<open>
  C7. When the OpenAI path is called on the text of the scenario and the completion
  text is the JSON object of the scenario, the call issues its one request and returns
  the value of that object, unchanged.
\<close>

theorem scenario_end_to_end:
  assumes "truthy (env w ''OPENAI_API_KEY'') = Some apiKey"
    and "openai_create w apiKey (openai_params scenario_text) = Inr response"
    and "openai_content response = Inr (Some scenario_reply)"
  shows "analyzeArgumentWithAI w scenario_text ''openai'' =
      ([OpenAICall apiKey (openai_params scenario_text)], Inr scenario_object) \<and>
    JSON_parse scenario_reply = Inr scenario_object"
  using assms scenario_reply_nonempty
  by (simp add: analyzeArgumentWithAI_def analyzeWithOpenAI_def truthy_def scenario_reply_parse
      parse_aiResponseSchema_eq conforms_scenario_object validated_scenario_object)

theorem scenario_end_to_end_witness:
  "analyzeArgumentWithAI (stub_world scenario_reply) scenario_text ''openai'' =
     ([OpenAICall ''sk-openai'' (openai_params scenario_text)], Inr scenario_object) \<and>
   JSON_parse scenario_reply = Inr scenario_object"
proof -
  have "truthy (env (stub_world scenario_reply) ''OPENAI_API_KEY'') = Some ''sk-openai''"
    and "openai_create (stub_world scenario_reply) ''sk-openai'' (openai_params scenario_text) =
      Inr (stub_body scenario_reply)"
    and "openai_content (stub_body scenario_reply) = Inr (Some scenario_reply)"
    by (simp_all add: stub_world_def stub_body_def truthy_def openai_content_def first_def)
  from scenario_end_to_end [OF this] show ?thesis .
qed

text \<open>
  C8. When the client's call succeeds, it has saved the result once, under a label
  that is \<open>openrouter-\<close> followed by the variant when the model is \<open>openrouter\<close> and a
  variant was chosen, and the model name alone for every other model.
\<close>

theorem history_label:
  assumes "snd (analyzeArgument c text model openRouterModel) = Inr result"
  shows
    "(model = ''openrouter'' \<and> openRouterModel = Some variant \<and> variant \<noteq> [] \<longrightarrow>
        fst (analyzeArgument c text model openRouterModel) =
          [(text, result, ''openrouter-'' @ variant)]) \<and>
     (model \<noteq> ''openrouter'' \<longrightarrow>
        fst (analyzeArgument c text model openRouterModel) = [(text, result, model)])"
  using assms
  by (auto simp: analyzeArgument_def Let_def truthy_def
      split: sum.splits option.splits if_splits thrown.splits)

theorem history_label_witness:
  "analyzeArgument stub_client scenario_text ''openrouter'' (Some ''mistral-7b'') =
     ([(scenario_text, scenario_object, ''openrouter-mistral-7b'')], Inr scenario_object) \<and>
   analyzeArgument stub_client scenario_text ''gemini'' None =
     ([(scenario_text, scenario_object, ''gemini'')], Inr scenario_object)"
proof -
  have a: "snd (analyzeArgument stub_client scenario_text ''openrouter'' (Some ''mistral-7b'')) =
      Inr scenario_object"
    and b: "snd (analyzeArgument stub_client scenario_text ''gemini'' None) = Inr scenario_object"
    by (simp_all add: analyzeArgument_def stub_client_def truthy_def)
  from history_label [OF a, of "''mistral-7b''"] history_label [OF b] a b
  show ?thesis by (simp add: prod_eq_iff)
qed

end
